theory Spec2Isabelle
  imports Complex_Main
begin

section \<open>Data model of \<^verbatim>\<open>src/main.py\<close>\<close>

text \<open>
  The program keeps two module-level dictionaries, \<^verbatim>\<open>progress_store: dict[str, float]\<close>
  and \<^verbatim>\<open>file_store: dict[str, str]\<close>. Both are maps here, and every function that
  mutates them takes the pair as a \<open>state\<close> and returns the new one.

  A Python \<^verbatim>\<open>str\<close> is a \<open>string\<close>; a character stands for one code point below 256.
  The one code point beyond that range in this theory, the fullwidth colon in a sample
  file name, is written as its three UTF-8 bytes; that name is only split at \<^verbatim>\<open>/\<close> and
  \<^verbatim>\<open>.\<close>, which no byte of such a sequence equals.
  A Python \<^verbatim>\<open>float\<close> is a finite value (a real number; every double is one), an
  infinity or NaN. The failure sentinel \<^verbatim>\<open>-1\<close> is a Python \<^verbatim>\<open>int\<close> in the source; it
  compares equal to \<^verbatim>\<open>-1.0\<close> and is \<open>Finite (- 1)\<close> here.
\<close>

type_synonym task_id = string

datatype pyfloat = Finite real | PosInf | NegInf | NaN

record state =
  progress_store :: "task_id \<rightharpoonup> pyfloat"
  file_store :: "task_id \<rightharpoonup> string"

text \<open>\<^verbatim>\<open>class DownloadRequest(BaseModel)\<close>: three unvalidated strings.\<close>

record DownloadRequest =
  url :: string
  type :: string
  quality :: string

text \<open>
  Exceptions are values. \<open>KeyError\<close> is what \<^verbatim>\<open>d["status"]\<close> raises on a missing key;
  \<open>LibraryError\<close> stands for any other instance of \<^verbatim>\<open>Exception\<close> raised inside the
  \<^verbatim>\<open>try\<close> block of \<^verbatim>\<open>start_download\<close>. Exceptions that derive from \<^verbatim>\<open>BaseException\<close>
  only (\<^verbatim>\<open>KeyboardInterrupt\<close>, \<^verbatim>\<open>SystemExit\<close>) are not caught by \<^verbatim>\<open>except Exception\<close>
  and are not part of this model.
\<close>

datatype py_exception = KeyError string | LibraryError string

datatype http_error = HTTPException nat string

text \<open>What \<^verbatim>\<open>background_tasks.add_task\<close> is given.\<close>

datatype background_task = StartDownload task_id DownloadRequest | OsRemove string

text \<open>The \<^verbatim>\<open>FileResponse\<close> built by \<^verbatim>\<open>download_file\<close>.\<close>

record file_response =
  path :: string
  filename :: string
  media_type :: string

section \<open>String helpers of the Python runtime\<close>

text \<open>
  \<^verbatim>\<open>s.replace("%", "")\<close> deletes every occurrence of the one-character pattern.
\<close>

definition remove_char :: "char \<Rightarrow> string \<Rightarrow> string" where
  "remove_char c s = filter (\<lambda>x. x \<noteq> c) s"

text \<open>
  \<^verbatim>\<open>str.isspace\<close> on a single code point below 256: TAB to CR, the four separators
  FS, GS, RS, US, the space, NEL (0x85) and the no-break space (0xA0).
\<close>

definition isspace :: "char \<Rightarrow> bool" where
  "isspace c = (let n = (of_char c :: nat) in
      (9 \<le> n \<and> n \<le> 13) \<or> (28 \<le> n \<and> n \<le> 32) \<or> n = 133 \<or> n = 160)"

text \<open>\<^verbatim>\<open>s.strip()\<close>: leading and trailing whitespace removed.\<close>

definition strip :: "string \<Rightarrow> string" where
  "strip s = rev (dropWhile isspace (rev (dropWhile isspace s)))"

text \<open>
  \<^verbatim>\<open>os.path.basename\<close> and \<^verbatim>\<open>os.path.splitext\<close> of \<^verbatim>\<open>posixpath\<close> (the download
  directory \<^verbatim>\<open>/tmp/downloads\<close> is a POSIX path). \<open>dirpart p\<close> is \<^verbatim>\<open>p[:sepIndex + 1]\<close>
  and \<open>basename p\<close> is \<^verbatim>\<open>p[sepIndex + 1:]\<close> for \<^verbatim>\<open>sepIndex = p.rfind("/")\<close>.
  \<^verbatim>\<open>splitext\<close> cuts at the last dot of the base name unless only dots precede it.
\<close>

definition basename :: "string \<Rightarrow> string" where
  "basename p = rev (takeWhile (\<lambda>c. c \<noteq> CHR ''/'') (rev p))"

definition dirpart :: "string \<Rightarrow> string" where
  "dirpart p = rev (dropWhile (\<lambda>c. c \<noteq> CHR ''/'') (rev p))"

definition splitext :: "string \<Rightarrow> string \<times> string" where
  "splitext p =
     (let b = basename p;
          ext = rev (takeWhile (\<lambda>c. c \<noteq> CHR ''.'') (rev b));
          stem = take (length b - length ext - 1) b
      in if CHR ''.'' \<in> set b \<and> (\<exists>c \<in> set stem. c \<noteq> CHR ''.'')
         then (dirpart p @ stem, CHR ''.'' # ext)
         else (p, []))"

text \<open>
  \<^verbatim>\<open>float(s)\<close> is a built-in of the Python runtime whose result is a rounded double.
  Every function below that calls it takes it as the parameter \<open>float\<close>, where \<open>None\<close>
  is the \<^verbatim>\<open>ValueError\<close>; the theorems hold for every such parser.

  \<open>float_decimal\<close> is the fragment of it used at concrete inputs: a plain decimal
  literal \<^verbatim>\<open>digits\<close> or \<^verbatim>\<open>digits.digits\<close> denotes its decimal value, which is what
  \<^verbatim>\<open>float\<close> returns whenever that value is a double (as for \<^verbatim>\<open>0\<close>, \<^verbatim>\<open>30.0\<close>, \<^verbatim>\<open>100.0\<close>).
  Strings outside the fragment are rejected here, also where Python accepts them.
\<close>

definition isdigit :: "char \<Rightarrow> bool" where
  "isdigit c = (48 \<le> (of_char c :: nat) \<and> (of_char c :: nat) \<le> 57)"

definition digits_value :: "string \<Rightarrow> nat" where
  "digits_value s = foldl (\<lambda>n c. 10 * n + (of_char c - 48)) 0 s"

definition float_decimal :: "string \<Rightarrow> pyfloat option" where
  "float_decimal s =
     (let ip = takeWhile (\<lambda>c. c \<noteq> CHR ''.'') s;
          rest = dropWhile (\<lambda>c. c \<noteq> CHR ''.'') s
      in if ip = [] \<or> \<not> list_all isdigit ip then None
         else (case rest of
                 [] \<Rightarrow> Some (Finite (of_nat (digits_value ip)))
               | _ # fp \<Rightarrow>
                   if fp = [] \<or> \<not> list_all isdigit fp then None
                   else Some (Finite (of_nat (digits_value (ip @ fp)) / 10 ^ length fp))))"

section \<open>Helpers\<close>

text \<open>
  \<^verbatim>\<open>safe_filename\<close>: \<^verbatim>\<open>re.sub(r'[\\/:*?"<>|]', '_', name)\<close>. The character class has
  nine members: backslash (0x5C), slash, colon, star, question mark, double quote
  (0x22), the two angle brackets and the bar.
\<close>

definition unsafe_chars :: "char list" where
  "unsafe_chars = [CHR 0x5C, CHR ''/'', CHR '':'', CHR ''*'', CHR ''?'', CHR 0x22,
                   CHR ''<'', CHR ''>'', CHR ''|'']"

definition safe_filename :: "string \<Rightarrow> string" where
  "safe_filename name = map (\<lambda>c. if c \<in> set unsafe_chars then CHR ''_'' else c) name"

text \<open>
  \<^verbatim>\<open>progress_hook(task_id)\<close> returns the closure \<^verbatim>\<open>hook(d)\<close>; here the closure applied
  to the event dictionary \<open>d\<close> (its string-valued entries). A missing \<^verbatim>\<open>"status"\<close> is
  a \<open>KeyError\<close>; the bare \<^verbatim>\<open>except:\<close> catches the parse failure only, since the
  assignment itself cannot fail.
\<close>

type_synonym event = "string \<rightharpoonup> string"

text \<open>The local \<^verbatim>\<open>percent_str\<close>: \<^verbatim>\<open>d.get("_percent_str", "0%").replace("%", "").strip()\<close>.\<close>

definition percent_str :: "event \<Rightarrow> string" where
  "percent_str d =
     strip (remove_char CHR ''%'' (case d ''_percent_str'' of None \<Rightarrow> ''0%'' | Some s \<Rightarrow> s))"

definition progress_hook ::
  "(string \<Rightarrow> pyfloat option) \<Rightarrow> task_id \<Rightarrow> event \<Rightarrow> state \<Rightarrow> py_exception + state" where
  "progress_hook float task_id d st =
     (case d ''status'' of
        None \<Rightarrow> Inl (KeyError ''status'')
      | Some status \<Rightarrow>
          if status = ''downloading'' then
            (case float (percent_str d) of
               Some v \<Rightarrow> Inr (st\<lparr>progress_store := (progress_store st)(task_id \<mapsto> v)\<rparr>)
             | None \<Rightarrow>
                 Inr (st\<lparr>progress_store := (progress_store st)
                           (task_id \<mapsto> (case progress_store st task_id of
                                           None \<Rightarrow> Finite 0 | Some v \<Rightarrow> v))\<rparr>))
          else if status = ''finished'' then
            Inr (st\<lparr>progress_store := (progress_store st)(task_id \<mapsto> Finite 99)\<rparr>)
          else Inr st)"

section \<open>The core download\<close>

definition DOWNLOAD_DIR :: string where
  "DOWNLOAD_DIR = ''/tmp/downloads''"

text \<open>
  The options dictionary handed to \<^verbatim>\<open>YoutubeDL\<close>. \<^verbatim>\<open>"postprocessors"\<close> is a key that
  only the audio branch adds, hence the \<open>option\<close>. \<^verbatim>\<open>"progress_hooks"\<close> holds the
  closure above and is represented by the hook calls of \<open>start_download\<close>.
\<close>

record postprocessor =
  key :: string
  preferredcodec :: string
  preferredquality :: string

record ydl_params =
  outtmpl :: string
  noplaylist :: bool
  concurrent_fragment_downloads :: nat
  retries :: nat
  fragment_retries :: nat
  merge_output_format :: string
  format_sort :: "string list"
  postprocessor_args :: "string list"
  format :: string
  postprocessors :: "postprocessor list option"

definition ydl_opts :: "task_id \<Rightarrow> DownloadRequest \<Rightarrow> ydl_params" where
  "ydl_opts task_id req =
     \<lparr>outtmpl = DOWNLOAD_DIR @ ''/'' @ task_id @ ''_%(title)s.%(ext)s'',
      noplaylist = True,
      concurrent_fragment_downloads = 1,
      retries = 5,
      fragment_retries = 5,
      merge_output_format = ''mp4'',
      format_sort = [''res'', ''fps'', ''codec:h264''],
      postprocessor_args = [''-map_metadata'', ''0'', ''-movflags'', ''+faststart''],
      format =
        (if type req = ''video'' then
           (if quality req = ''1080'' then ''bestvideo[height<=1080]+bestaudio/best''
            else if quality req = ''720'' then ''bestvideo[height<=720]+bestaudio/best''
            else ''bestvideo+bestaudio/best'')
         else ''bestaudio/best''),
      postprocessors =
        (if type req = ''video'' then None
         else Some [\<lparr>key = ''FFmpegExtractAudio'', preferredcodec = ''mp3'',
                     preferredquality = quality req\<rparr>])\<rparr>"



text \<open>
  What one use of the external library does, as far as \<^verbatim>\<open>start_download\<close> can tell:
  the events it hands to the progress hook during \<^verbatim>\<open>extract_info\<close>, in order; then
  either an exception (from the constructor, \<^verbatim>\<open>extract_info\<close> or \<^verbatim>\<open>prepare_filename\<close>)
  or the string that \<^verbatim>\<open>prepare_filename(info)\<close> returns; and whether leaving the
  \<^verbatim>\<open>with\<close> block raises. The library is a parameter \<open>ydl\<close> mapping the options and the
  URL to such a behaviour.
\<close>

record ydl_run =
  hook_events :: "event list"
  prepared :: "py_exception + string"
  on_exit :: "py_exception option"

text \<open>
  The hook calls made by the library. An exception of the hook leaves the library
  call and ends the run of events; the state it is raised in is kept.
\<close>

fun run_hooks ::
  "(string \<Rightarrow> pyfloat option) \<Rightarrow> task_id \<Rightarrow> event list \<Rightarrow> state \<Rightarrow> py_exception option \<times> state" where
  "run_hooks float task_id [] st = (None, st)"
| "run_hooks float task_id (d # ds) st =
     (case progress_hook float task_id d st of
        Inl e \<Rightarrow> (Some e, st)
      | Inr st' \<Rightarrow> run_hooks float task_id ds st')"

text \<open>
  The \<^verbatim>\<open>except Exception as e\<close> branch, statement by statement:
  \<^verbatim>\<open>progress_store[task_id] = -1\<close>, then \<^verbatim>\<open>file_store.pop(task_id, None)\<close>, then
  \<^verbatim>\<open>raise e\<close>.
\<close>

definition mark_failed :: "task_id \<Rightarrow> state \<Rightarrow> state" where
  "mark_failed task_id st =
     st\<lparr>progress_store := (progress_store st)(task_id \<mapsto> Finite (- 1))\<rparr>"

definition pop_path :: "task_id \<Rightarrow> state \<Rightarrow> state" where
  "pop_path task_id st = st\<lparr>file_store := (file_store st)(task_id := None)\<rparr>"

definition on_exception :: "task_id \<Rightarrow> py_exception \<Rightarrow> state \<Rightarrow> py_exception option \<times> state" where
  "on_exception task_id e st = (Some e, pop_path task_id (mark_failed task_id st))"

text \<open>
  The end of the \<^verbatim>\<open>with\<close> block, statement by statement: the final path is computed
  and \<^verbatim>\<open>file_store[task_id] = final_path\<close> stores it; then
  \<^verbatim>\<open>progress_store[task_id] = 100.0\<close>. \<open>finalize\<close> is the two in sequence.
\<close>

definition store_path :: "task_id \<Rightarrow> DownloadRequest \<Rightarrow> string \<Rightarrow> state \<Rightarrow> state" where
  "store_path task_id req prepared_name st =
     (let base_path = fst (splitext prepared_name);
          final_path = (if type req = ''video'' then base_path @ ''.mp4''
                        else base_path @ ''.mp3'')
      in st\<lparr>file_store := (file_store st)(task_id \<mapsto> final_path)\<rparr>)"

definition store_done :: "task_id \<Rightarrow> state \<Rightarrow> state" where
  "store_done task_id st =
     st\<lparr>progress_store := (progress_store st)(task_id \<mapsto> Finite 100)\<rparr>"

definition finalize :: "task_id \<Rightarrow> DownloadRequest \<Rightarrow> string \<Rightarrow> state \<Rightarrow> state" where
  "finalize task_id req prepared_name st =
     store_done task_id (store_path task_id req prepared_name st)"

text \<open>
  \<^verbatim>\<open>start_download\<close>. The result is the exception that leaves the function, if any,
  and the state it leaves behind.
\<close>

definition start_download ::
  "(string \<Rightarrow> pyfloat option) \<Rightarrow> (ydl_params \<Rightarrow> string \<Rightarrow> ydl_run) \<Rightarrow>
     task_id \<Rightarrow> DownloadRequest \<Rightarrow> state \<Rightarrow> py_exception option \<times> state" where
  "start_download float ydl task_id req st =
     (let run = ydl (ydl_opts task_id req) (url req)
      in case run_hooks float task_id (hook_events run) st of
           (Some e, st1) \<Rightarrow> on_exception task_id e st1
         | (None, st1) \<Rightarrow>
             (case prepared run of
                Inl e \<Rightarrow> on_exception task_id e st1
              | Inr prepared_name \<Rightarrow>
                  (let st2 = finalize task_id req prepared_name st1
                   in case on_exit run of
                        Some e \<Rightarrow> on_exception task_id e st2
                      | None \<Rightarrow> (None, st2))))"

section \<open>The API\<close>

text \<open>
  \<^verbatim>\<open>POST /download\<close>. The identifier drawn by \<^verbatim>\<open>uuid.uuid4()\<close> is the parameter
  \<open>task_id\<close>. The result is the response body, the scheduled background task and the
  new state.
\<close>

definition download ::
  "task_id \<Rightarrow> DownloadRequest \<Rightarrow> state \<Rightarrow> task_id \<times> background_task \<times> state" where
  "download task_id req st =
     (task_id, StartDownload task_id req,
      st\<lparr>progress_store := (progress_store st)(task_id \<mapsto> Finite 0)\<rparr>)"

text \<open>\<^verbatim>\<open>GET /progress/{task_id}\<close>: \<^verbatim>\<open>progress_store.get(task_id, 0.0)\<close>.\<close>

definition progress :: "task_id \<Rightarrow> state \<Rightarrow> pyfloat" where
  "progress task_id st = (case progress_store st task_id of None \<Rightarrow> Finite 0 | Some v \<Rightarrow> v)"

text \<open>
  \<^verbatim>\<open>GET /download-file/{task_id}\<close>. \<open>files\<close> is the set of paths for which
  \<^verbatim>\<open>os.path.exists\<close> answers true at the time of the call. \<^verbatim>\<open>not path\<close> holds for
  \<^verbatim>\<open>None\<close> and for the empty string.
\<close>

definition download_file ::
  "string set \<Rightarrow> task_id \<Rightarrow> state \<Rightarrow> http_error + (file_response \<times> background_task \<times> state)" where
  "download_file files task_id st =
     (case file_store st task_id of
        None \<Rightarrow> Inl (HTTPException 404 ''File not available'')
      | Some p \<Rightarrow>
          if p = [] \<or> p \<notin> files then Inl (HTTPException 404 ''File not available'')
          else Inr (\<lparr>path = p, filename = basename p,
                     media_type = ''application/octet-stream''\<rparr>,
                    OsRemove p,
                    st\<lparr>file_store := (file_store st)(task_id := None),
                       progress_store := (progress_store st)(task_id := None)\<rparr>))"

section \<open>Observable points and operations\<close>

text \<open>
  The exception raised inside the \<^verbatim>\<open>try\<close> block of a run, if any: the first of a hook's,
  the library's and the one on leaving the \<^verbatim>\<open>with\<close> block.
\<close>

definition raised_in_try ::
  "(string \<Rightarrow> pyfloat option) \<Rightarrow> (ydl_params \<Rightarrow> string \<Rightarrow> ydl_run) \<Rightarrow>
     task_id \<Rightarrow> DownloadRequest \<Rightarrow> state \<Rightarrow> py_exception option" where
  "raised_in_try float ydl task_id req st =
     (let run = ydl (ydl_opts task_id req) (url req)
      in case fst (run_hooks float task_id (hook_events run) st) of
           Some e \<Rightarrow> Some e
         | None \<Rightarrow> (case prepared run of Inl e \<Rightarrow> Some e | Inr name \<Rightarrow> on_exit run))"

text \<open>
  The points at which another request can observe the stores while \<open>start_download\<close>
  runs, one after each statement that writes to them: after a hook call that returned,
  after \<^verbatim>\<open>file_store[task_id] = final_path\<close>, after \<^verbatim>\<open>progress_store[task_id] = 100.0\<close>,
  after \<^verbatim>\<open>progress_store[task_id] = -1\<close> and after \<^verbatim>\<open>file_store.pop(task_id, None)\<close>.
  \<open>start_download_points\<close> lists them in order with the state at each;
  \<open>start_download_last\<close> below shows that the last state is the one \<open>start_download\<close>
  returns.
\<close>

datatype point = AfterHook | AfterPath | AfterDone | AfterSentinel | AfterPop

fun hook_states ::
  "(string \<Rightarrow> pyfloat option) \<Rightarrow> task_id \<Rightarrow> event list \<Rightarrow> state \<Rightarrow> state list" where
  "hook_states float task_id [] st = []"
| "hook_states float task_id (d # ds) st =
     (case progress_hook float task_id d st of
        Inl e \<Rightarrow> []
      | Inr st' \<Rightarrow> st' # hook_states float task_id ds st')"

definition handler_points :: "task_id \<Rightarrow> state \<Rightarrow> (point \<times> state) list" where
  "handler_points task_id st =
     [(AfterSentinel, mark_failed task_id st),
      (AfterPop, pop_path task_id (mark_failed task_id st))]"

definition start_download_points ::
  "(string \<Rightarrow> pyfloat option) \<Rightarrow> (ydl_params \<Rightarrow> string \<Rightarrow> ydl_run) \<Rightarrow>
     task_id \<Rightarrow> DownloadRequest \<Rightarrow> state \<Rightarrow> (point \<times> state) list" where
  "start_download_points float ydl task_id req st =
     (let run = ydl (ydl_opts task_id req) (url req);
          hs = map (Pair AfterHook) (hook_states float task_id (hook_events run) st)
      in case run_hooks float task_id (hook_events run) st of
           (Some e, st1) \<Rightarrow> hs @ handler_points task_id st1
         | (None, st1) \<Rightarrow>
             (case prepared run of
                Inl e \<Rightarrow> hs @ handler_points task_id st1
              | Inr prepared_name \<Rightarrow>
                  (let st2 = store_path task_id req prepared_name st1;
                       st3 = store_done task_id st2
                   in hs @ [(AfterPath, st2), (AfterDone, st3)]
                         @ (case on_exit run of
                              Some e \<Rightarrow> handler_points task_id st3
                            | None \<Rightarrow> []))))"

definition start_download_states ::
  "(string \<Rightarrow> pyfloat option) \<Rightarrow> (ydl_params \<Rightarrow> string \<Rightarrow> ydl_run) \<Rightarrow>
     task_id \<Rightarrow> DownloadRequest \<Rightarrow> state \<Rightarrow> state list" where
  "start_download_states float ydl task_id req st =
     map snd (start_download_points float ydl task_id req st)"

text \<open>
  The progress a poll would read at each observable point of a run, starting with
  the state the run begins in.
\<close>

definition progress_values ::
  "(string \<Rightarrow> pyfloat option) \<Rightarrow> (ydl_params \<Rightarrow> string \<Rightarrow> ydl_run) \<Rightarrow>
     task_id \<Rightarrow> DownloadRequest \<Rightarrow> state \<Rightarrow> pyfloat list" where
  "progress_values float ydl task_id req st =
     map (progress task_id) (st # start_download_states float ydl task_id req st)"

text \<open>Python's \<^verbatim>\<open><=\<close> on floats: every comparison with NaN is false.\<close>

fun py_le :: "pyfloat \<Rightarrow> pyfloat \<Rightarrow> bool" where
  "py_le NaN y = False"
| "py_le x NaN = False"
| "py_le (Finite a) (Finite b) = (a \<le> b)"
| "py_le NegInf y = True"
| "py_le x PosInf = True"
| "py_le x y = False"

fun nondecreasing :: "pyfloat list \<Rightarrow> bool" where
  "nondecreasing [] = True"
| "nondecreasing [x] = True"
| "nondecreasing (x # y # ys) = (py_le x y \<and> nondecreasing (y # ys))"

text \<open>The values before the run reaches \<open>100\<close> or the sentinel \<open>-1\<close>.\<close>

definition in_progress :: "pyfloat \<Rightarrow> bool" where
  "in_progress v = (v \<noteq> Finite 100 \<and> v \<noteq> Finite (- 1))"

definition not_failed :: "pyfloat \<Rightarrow> bool" where
  "not_failed v = (v \<noteq> Finite (- 1))"

definition at_most_99 :: "pyfloat \<Rightarrow> bool" where
  "at_most_99 v = py_le v (Finite 99)"

text \<open>
  What an event tells the hook to store: the parsed percentage of a
  \<^verbatim>\<open>"downloading"\<close> event, \<open>99\<close> for \<^verbatim>\<open>"finished"\<close>, nothing otherwise.
\<close>

definition reported :: "(string \<Rightarrow> pyfloat option) \<Rightarrow> event \<Rightarrow> pyfloat option" where
  "reported float d =
     (if d ''status'' = Some ''downloading'' then float (percent_str d)
      else if d ''status'' = Some ''finished'' then Some (Finite 99)
      else None)"

definition reports :: "(string \<Rightarrow> pyfloat option) \<Rightarrow> event list \<Rightarrow> pyfloat list" where
  "reports float ds = concat (map (\<lambda>d. case reported float d of None \<Rightarrow> [] | Some v \<Rightarrow> [v]) ds)"

text \<open>
  The two readings of the data model's invariant on one task: the result path is
  stored exactly when, or only when, the stored progress is \<open>100\<close>.
\<close>

definition path_iff_done :: "task_id \<Rightarrow> state \<Rightarrow> bool" where
  "path_iff_done task_id st =
     ((file_store st task_id \<noteq> None) = (progress_store st task_id = Some (Finite 100)))"

definition path_implies_done :: "task_id \<Rightarrow> state \<Rightarrow> bool" where
  "path_implies_done task_id st =
     (file_store st task_id \<noteq> None \<longrightarrow> progress_store st task_id = Some (Finite 100))"

text \<open>
  The second reading at a point of a run, the two points inside a pair of assignments
  set aside: between storing the path and storing 100, and between storing the
  sentinel and popping the path.
\<close>

fun path_settled :: "task_id \<Rightarrow> point \<times> state \<Rightarrow> bool" where
  "path_settled task_id (pt, st) =
     (pt = AfterPath \<or> pt = AfterSentinel \<or> path_implies_done task_id st)"

text \<open>
  The operations that change or read the stores, as atomic steps: the three endpoints,
  a hook call of a running task and a whole run of \<open>start_download\<close>. \<open>apply_op\<close> is
  the state an operation leaves; a failing operation leaves what it had stored.
\<close>

datatype op =
    Download task_id DownloadRequest
  | HookCall task_id event
  | RunDownload task_id DownloadRequest "ydl_params \<Rightarrow> string \<Rightarrow> ydl_run"
  | Progress task_id
  | DownloadFile "string set" task_id

fun apply_op :: "(string \<Rightarrow> pyfloat option) \<Rightarrow> state \<Rightarrow> op \<Rightarrow> state" where
  "apply_op float st (Download task_id req) = snd (snd (download task_id req st))"
| "apply_op float st (HookCall task_id d) =
     (case progress_hook float task_id d st of Inl e \<Rightarrow> st | Inr st' \<Rightarrow> st')"
| "apply_op float st (RunDownload task_id req ydl) =
     snd (start_download float ydl task_id req st)"
| "apply_op float st (Progress task_id) = st"
| "apply_op float st (DownloadFile files task_id) =
     (case download_file files task_id st of Inl e \<Rightarrow> st | Inr r \<Rightarrow> snd (snd r))"

text \<open>
  An operation is foreign to a task when it is not that task's submission, hook call
  or run. Identifiers come from \<^verbatim>\<open>uuid4\<close> and a task is scheduled once, so after a
  task's run has ended every further operation is foreign to it.
\<close>

fun foreign :: "task_id \<Rightarrow> op \<Rightarrow> bool" where
  "foreign t (Download task_id req) = (task_id \<noteq> t)"
| "foreign t (HookCall task_id d) = (task_id \<noteq> t)"
| "foreign t (RunDownload task_id req ydl) = (task_id \<noteq> t)"
| "foreign t (Progress task_id) = True"
| "foreign t (DownloadFile files task_id) = True"

section \<open>Sample inputs\<close>

text \<open>A library whose behaviour is the same for all options and URLs.\<close>

definition ydl_fixed :: "ydl_run \<Rightarrow> ydl_params \<Rightarrow> string \<Rightarrow> ydl_run" where
  "ydl_fixed r opts u = r"


text \<open>The state right after \<^verbatim>\<open>POST /download\<close> has drawn the identifier \<^verbatim>\<open>t\<close>.\<close>

definition submitted :: state where
  "submitted = \<lparr>progress_store = [''t'' \<mapsto> Finite 0], file_store = Map.empty\<rparr>"

definition video_request :: DownloadRequest where
  "video_request = \<lparr>url = ''https://example.com/v'', type = ''video'', quality = ''best''\<rparr>"

definition audio_request :: DownloadRequest where
  "audio_request = \<lparr>url = ''https://example.com/v'', type = ''audio'', quality = ''192''\<rparr>"

text \<open>
  A video stream that ends, followed by the audio stream starting without a
  percentage; the merged file is then prepared.
\<close>

definition two_streams :: ydl_run where
  "two_streams =
     \<lparr>hook_events = [[''status'' \<mapsto> ''downloading'', ''_percent_str'' \<mapsto> '' 50.0%''],
                     [''status'' \<mapsto> ''finished''],
                     [''status'' \<mapsto> ''downloading'']],
      prepared = Inr ''/tmp/downloads/t_clip.webm'',
      on_exit = None\<rparr>"

text \<open>A download that reports \<^verbatim>\<open>100.0%\<close> before the stream is finished.\<close>

definition full_percent :: ydl_run where
  "full_percent =
     \<lparr>hook_events = [[''status'' \<mapsto> ''downloading'', ''_percent_str'' \<mapsto> ''100.0%''],
                     [''status'' \<mapsto> ''finished'']],
      prepared = Inr ''/tmp/downloads/t_clip.webm'',
      on_exit = None\<rparr>"

text \<open>
  A download with one unparsable percentage between a report and the end of the
  stream.
\<close>

definition steady :: ydl_run where
  "steady =
     \<lparr>hook_events = [[''status'' \<mapsto> ''downloading'', ''_percent_str'' \<mapsto> '' 50.0%''],
                     [''status'' \<mapsto> ''downloading'', ''_percent_str'' \<mapsto> ''N/A''],
                     [''status'' \<mapsto> ''finished'']],
      prepared = Inr ''/tmp/downloads/t_clip.webm'',
      on_exit = None\<rparr>"

text \<open>A download whose extraction fails after one progress report.\<close>

definition failing :: ydl_run where
  "failing =
     \<lparr>hook_events = [[''status'' \<mapsto> ''downloading'', ''_percent_str'' \<mapsto> '' 30.0%'']],
      prepared = Inl (LibraryError ''DownloadError''),
      on_exit = None\<rparr>"

text \<open>A download that succeeds until leaving the \<^verbatim>\<open>with\<close> block raises.\<close>

definition exit_raises :: ydl_run where
  "exit_raises =
     \<lparr>hook_events = [[''status'' \<mapsto> ''finished'']],
      prepared = Inr ''/tmp/downloads/t_clip.webm'',
      on_exit = Some (LibraryError ''OSError'')\<rparr>"

text \<open>
  A download of a video titled \<^verbatim>\<open>a:b\<close>: the library writes the colon of the title as
  the fullwidth colon U+FF1A (UTF-8 bytes EF BC 9A) when it prepares the file name.
\<close>

definition fullwidth_title :: ydl_run where
  "fullwidth_title =
     \<lparr>hook_events = [[''status'' \<mapsto> ''finished'']],
      prepared = Inr (''/tmp/downloads/t_a'' @ [CHR 0xEF, CHR 0xBC, CHR 0x9A] @ ''b.webm''),
      on_exit = None\<rparr>"

section \<open>The endpoints\<close>

lemma download_file_Inl:
  "download_file files task_id st = Inl e \<Longrightarrow> e = HTTPException 404 ''File not available''"
  by (simp add: download_file_def split: option.splits if_splits)

lemma download_file_missing:
  "file_store st task_id = None \<Longrightarrow>
   download_file files task_id st = Inl (HTTPException 404 ''File not available'')"
  by (simp add: download_file_def)

lemma download_file_absent:
  "file_store st task_id = Some p \<Longrightarrow> p \<notin> files \<Longrightarrow>
   download_file files task_id st = Inl (HTTPException 404 ''File not available'')"
  by (simp add: download_file_def)

lemma download_file_present:
  "file_store st task_id = Some p \<Longrightarrow> p \<in> files \<Longrightarrow> p \<noteq> [] \<Longrightarrow>
   download_file files task_id st
   = Inr (\<lparr>path = p, filename = basename p, media_type = ''application/octet-stream''\<rparr>,
          OsRemove p,
          st\<lparr>file_store := (file_store st)(task_id := None),
             progress_store := (progress_store st)(task_id := None)\<rparr>)"
  by (simp add: download_file_def)

text \<open>
  C4. For every task id and every state of the stores, the fetch endpoint fails, and
  then with 404 \<^verbatim>\<open>File not available\<close>, exactly when \<open>file_store\<close> has no entry for the id
  or the stored path is not on disk. Otherwise it answers with the stored path,
  schedules its removal and deletes the id from both stores, so that the next fetch of
  the same id is a 404 whatever is on disk by then. The empty path names no file.
\<close>

theorem fetch_not_found_iff:
  assumes "[] \<notin> files"
  shows "(download_file files task_id st = Inl (HTTPException 404 ''File not available'')
           \<longleftrightarrow> (file_store st task_id = None \<or> (\<exists>p. file_store st task_id = Some p \<and> p \<notin> files)))
       \<and> (\<forall>e. download_file files task_id st = Inl e \<longrightarrow> e = HTTPException 404 ''File not available'')
       \<and> (\<forall>p. file_store st task_id = Some p \<and> p \<in> files \<longrightarrow>
             (\<exists>st'. download_file files task_id st
                      = Inr (\<lparr>path = p, filename = basename p,
                               media_type = ''application/octet-stream''\<rparr>, OsRemove p, st')
                  \<and> file_store st' task_id = None \<and> progress_store st' task_id = None
                  \<and> (\<forall>files'. download_file files' task_id st'
                                = Inl (HTTPException 404 ''File not available''))))"
proof (intro conjI allI impI)
  show "download_file files task_id st = Inl (HTTPException 404 ''File not available'')
           \<longleftrightarrow> (file_store st task_id = None \<or> (\<exists>p. file_store st task_id = Some p \<and> p \<notin> files))"
  proof (cases "file_store st task_id")
    case None
    then show ?thesis by (simp add: download_file_missing)
  next
    case (Some p)
    show ?thesis
    proof (cases "p \<in> files")
      case True
      with assms have "p \<noteq> []" by auto
      with Some True show ?thesis by (simp add: download_file_present)
    next
      case False
      with Some show ?thesis by (simp add: download_file_absent)
    qed
  qed
next
  fix e assume "download_file files task_id st = Inl e"
  then show "e = HTTPException 404 ''File not available''" by (rule download_file_Inl)
next
  fix p assume a: "file_store st task_id = Some p \<and> p \<in> files"
  with assms have ne: "p \<noteq> []" by auto
  let ?st' = "st\<lparr>file_store := (file_store st)(task_id := None),
                 progress_store := (progress_store st)(task_id := None)\<rparr>"
  have "download_file files task_id st
          = Inr (\<lparr>path = p, filename = basename p, media_type = ''application/octet-stream''\<rparr>,
                 OsRemove p, ?st')"
    using a ne by (simp add: download_file_present)
  moreover have "file_store ?st' task_id = None" "progress_store ?st' task_id = None" by simp_all
  moreover have "\<forall>files'. download_file files' task_id ?st' = Inl (HTTPException 404 ''File not available'')"
    by (simp add: download_file_missing)
  ultimately show "\<exists>st'. download_file files task_id st
                      = Inr (\<lparr>path = p, filename = basename p,
                               media_type = ''application/octet-stream''\<rparr>, OsRemove p, st')
                  \<and> file_store st' task_id = None \<and> progress_store st' task_id = None
                  \<and> (\<forall>files'. download_file files' task_id st'
                                = Inl (HTTPException 404 ''File not available''))"
    by blast
qed

theorem fetch_not_found_iff_witness:
  "[] \<notin> {''/tmp/downloads/t_clip.mp4''}
   \<and> download_file {''/tmp/downloads/t_clip.mp4''} ''t''
       \<lparr>progress_store = [''t'' \<mapsto> Finite 100], file_store = [''t'' \<mapsto> ''/tmp/downloads/t_clip.mp4'']\<rparr>
     \<noteq> Inl (HTTPException 404 ''File not available'')
   \<and> download_file {''/tmp/downloads/t_clip.mp4''} ''t''
       \<lparr>progress_store = Map.empty, file_store = Map.empty\<rparr>
     = Inl (HTTPException 404 ''File not available'')"
proof -
  let ?F = "{''/tmp/downloads/t_clip.mp4''}"
  let ?S = "\<lparr>progress_store = [''t'' \<mapsto> Finite 100],
             file_store = [''t'' \<mapsto> ''/tmp/downloads/t_clip.mp4'']\<rparr>"
  let ?E = "\<lparr>progress_store = (Map.empty :: task_id \<rightharpoonup> pyfloat),
             file_store = (Map.empty :: task_id \<rightharpoonup> string)\<rparr>"
  have h: "[] \<notin> ?F" by simp
  have s: "\<not> (file_store ?S ''t'' = None \<or> (\<exists>p. file_store ?S ''t'' = Some p \<and> p \<notin> ?F))"
    by simp
  have e: "file_store ?E ''t'' = None" by simp
  have "download_file ?F ''t'' ?S \<noteq> Inl (HTTPException 404 ''File not available'')"
    using fetch_not_found_iff [OF h, of "''t''" ?S] s by blast
  moreover have "download_file ?F ''t'' ?E = Inl (HTTPException 404 ''File not available'')"
    using fetch_not_found_iff [OF h, of "''t''" ?E] e by blast
  ultimately show ?thesis using h by blast
qed

text \<open>
  C10. After a successful fetch of a task id, polling that id answers 0, which is
  the answer for every id the progress store has no entry for: the fetch deleted the
  entry and the poll defaults a missing id to 0.
\<close>

theorem poll_after_fetch:
  assumes "download_file files task_id st = Inr (resp, bg, st')"
  shows "progress task_id st' = Finite 0
       \<and> (\<forall>s. progress_store s task_id = None \<longrightarrow> progress task_id s = progress task_id st')"
  using assms
  by (auto simp: download_file_def progress_def split: option.splits if_splits)

theorem poll_after_fetch_witness:
  "download_file {''/tmp/downloads/t_clip.mp4''} ''t''
     \<lparr>progress_store = [''t'' \<mapsto> Finite 100], file_store = [''t'' \<mapsto> ''/tmp/downloads/t_clip.mp4'']\<rparr>
   = Inr (\<lparr>path = ''/tmp/downloads/t_clip.mp4'', filename = ''t_clip.mp4'',
            media_type = ''application/octet-stream''\<rparr>,
          OsRemove ''/tmp/downloads/t_clip.mp4'',
          \<lparr>progress_store = Map.empty, file_store = Map.empty\<rparr>)
   \<and> progress ''t'' \<lparr>progress_store = Map.empty, file_store = Map.empty\<rparr> = Finite 0
   \<and> progress ''never'' \<lparr>progress_store = Map.empty, file_store = Map.empty\<rparr>
       = progress ''t'' \<lparr>progress_store = Map.empty, file_store = Map.empty\<rparr>"
proof -
  have run: "download_file {''/tmp/downloads/t_clip.mp4''} ''t''
     \<lparr>progress_store = [''t'' \<mapsto> Finite 100], file_store = [''t'' \<mapsto> ''/tmp/downloads/t_clip.mp4'']\<rparr>
   = Inr (\<lparr>path = ''/tmp/downloads/t_clip.mp4'', filename = ''t_clip.mp4'',
            media_type = ''application/octet-stream''\<rparr>,
          OsRemove ''/tmp/downloads/t_clip.mp4'',
          \<lparr>progress_store = Map.empty, file_store = Map.empty\<rparr>)"
    by (simp add: download_file_def basename_def)
  from poll_after_fetch [OF run] run show ?thesis by (simp add: progress_def)
qed

section \<open>The options handed to the library\<close>


section \<open>The progress hook\<close>

text \<open>
  C9. A hook call with status \<^verbatim>\<open>"downloading"\<close> whose event has no \<^verbatim>\<open>"_percent_str"\<close>
  stores 0.0 as the task's progress, whatever was stored before: the default \<^verbatim>\<open>"0%"\<close>
  becomes \<^verbatim>\<open>"0"\<close>, which \<^verbatim>\<open>float\<close> parses to 0.0.
\<close>

theorem hook_missing_percent:
  assumes "d ''status'' = Some ''downloading''" and "d ''_percent_str'' = None"
    and "float ''0'' = Some (Finite 0)"
  shows "progress_hook float task_id d st
         = Inr (st\<lparr>progress_store := (progress_store st)(task_id \<mapsto> Finite 0)\<rparr>)"
  using assms by (simp add: progress_hook_def percent_str_def strip_def remove_char_def isspace_def)

theorem hook_missing_percent_witness:
  "progress_hook float_decimal ''t'' [''status'' \<mapsto> ''downloading'']
     \<lparr>progress_store = [''t'' \<mapsto> Finite 99], file_store = Map.empty\<rparr>
   = Inr \<lparr>progress_store = [''t'' \<mapsto> Finite 0], file_store = Map.empty\<rparr>"
proof -
  have p: "float_decimal ''0'' = Some (Finite 0)"
    by (simp add: float_decimal_def isdigit_def digits_value_def)
  have s: "[''status'' \<mapsto> ''downloading''] ''status'' = Some ''downloading''" by simp
  have n: "[''status'' \<mapsto> ''downloading''] ''_percent_str'' = None" by simp
  from hook_missing_percent [of "[''status'' \<mapsto> ''downloading'']" float_decimal "''t''"
        "\<lparr>progress_store = [''t'' \<mapsto> Finite 99], file_store = Map.empty\<rparr>"] s n p
  show ?thesis by simp
qed

section \<open>Runs of \<open>start_download\<close>\<close>

lemma progress_hook_frame:
  assumes "progress_hook float task_id d st = Inr st'"
  shows "file_store st' = file_store st"
    and "u \<noteq> task_id \<Longrightarrow> progress_store st' u = progress_store st u"
  using assms
  by (auto simp: progress_hook_def Let_def split: option.splits if_splits)

lemma run_hooks_frame:
  assumes "run_hooks float task_id ds st = (r, st')"
  shows "file_store st' = file_store st \<and> (\<forall>u. u \<noteq> task_id \<longrightarrow> progress_store st' u = progress_store st u)"
  using assms
proof (induction ds arbitrary: st)
  case Nil
  then show ?case by simp
next
  case (Cons d ds)
  show ?case
  proof (cases "progress_hook float task_id d st")
    case (Inl e)
    with Cons.prems show ?thesis by simp
  next
    case (Inr st1)
    with Cons.prems have "run_hooks float task_id ds st1 = (r, st')" by simp
    from Cons.IH [OF this] progress_hook_frame [OF Inr] show ?thesis by simp
  qed
qed

lemma on_exception_result:
  "on_exception task_id e st = (r, st') \<Longrightarrow>
   r = Some e \<and> progress_store st' task_id = Some (Finite (- 1)) \<and> file_store st' task_id = None
   \<and> (\<forall>u. u \<noteq> task_id \<longrightarrow> progress_store st' u = progress_store st u \<and> file_store st' u = file_store st u)"
  by (auto simp: on_exception_def mark_failed_def pop_path_def)

lemma finalize_result:
  "progress_store (finalize task_id req name st) task_id = Some (Finite 100)"
  "file_store (finalize task_id req name st) task_id
     = Some (fst (splitext name) @ (if type req = ''video'' then ''.mp4'' else ''.mp3''))"
  "u \<noteq> task_id \<Longrightarrow> progress_store (finalize task_id req name st) u = progress_store st u"
  "u \<noteq> task_id \<Longrightarrow> file_store (finalize task_id req name st) u = file_store st u"
  by (simp_all add: finalize_def store_path_def store_done_def Let_def)

text \<open>Whether a run raises, read off the library's behaviour.\<close>

lemma start_download_cases:
  fixes float ydl task_id req st
  defines "run \<equiv> ydl (ydl_opts task_id req) (url req)"
  defines "h \<equiv> run_hooks float task_id (hook_events run) st"
  shows "start_download float ydl task_id req st =
     (case fst h of
        Some e \<Rightarrow> on_exception task_id e (snd h)
      | None \<Rightarrow>
          (case prepared run of
             Inl e \<Rightarrow> on_exception task_id e (snd h)
           | Inr name \<Rightarrow>
               (case on_exit run of
                  Some e \<Rightarrow> on_exception task_id e (finalize task_id req name (snd h))
                | None \<Rightarrow> (None, finalize task_id req name (snd h)))))"
  unfolding run_def h_def
  by (simp add: start_download_def Let_def split: prod.splits option.splits sum.splits)

lemma start_download_raised:
  assumes "start_download float ydl task_id req st = (Some e, st')"
  shows "progress_store st' task_id = Some (Finite (- 1)) \<and> file_store st' task_id = None"
  using assms
  by (auto simp: start_download_cases on_exception_def mark_failed_def pop_path_def split: option.splits sum.splits)

lemma start_download_returned:
  assumes "start_download float ydl task_id req st = (None, st')"
  shows "progress_store st' task_id = Some (Finite 100)
       \<and> (\<exists>name. prepared (ydl (ydl_opts task_id req) (url req)) = Inr name
            \<and> file_store st' task_id
                = Some (fst (splitext name) @ (if type req = ''video'' then ''.mp4'' else ''.mp3'')))"
  using assms
  by (auto simp: start_download_cases on_exception_def mark_failed_def pop_path_def finalize_result split: option.splits sum.splits)

lemma start_download_frame:
  assumes "u \<noteq> task_id"
  shows "progress_store (snd (start_download float ydl task_id req st)) u = progress_store st u
       \<and> file_store (snd (start_download float ydl task_id req st)) u = file_store st u"
proof -
  obtain r st1 where h: "run_hooks float task_id (hook_events (ydl (ydl_opts task_id req) (url req))) st = (r, st1)"
    by (cases "run_hooks float task_id (hook_events (ydl (ydl_opts task_id req) (url req))) st")
  from run_hooks_frame [OF h] assms
  have f: "file_store st1 u = file_store st u" "progress_store st1 u = progress_store st u" by simp_all
  show ?thesis using assms f h
    by (simp add: start_download_cases on_exception_def mark_failed_def pop_path_def finalize_result split: option.splits sum.splits)
qed

lemma start_download_propagates:
  "fst (start_download float ydl task_id req st) = raised_in_try float ydl task_id req st"
  by (simp add: start_download_cases raised_in_try_def on_exception_def mark_failed_def pop_path_def Let_def
        split: option.splits sum.splits)

lemma download_file_frame:
  assumes "download_file files u st = Inr (resp, bg, st')"
  shows "(u \<noteq> t \<longrightarrow> progress_store st' t = progress_store st t \<and> file_store st' t = file_store st t)
       \<and> progress_store st' u = None \<and> file_store st' u = None \<and> file_store st u \<noteq> None"
  using assms by (auto simp: download_file_def split: option.splits if_splits)

lemma apply_op_foreign:
  assumes "foreign t op1"
  shows "(progress_store (apply_op float st op1) t = progress_store st t
            \<and> file_store (apply_op float st op1) t = file_store st t)
       \<or> (file_store st t \<noteq> None \<and> progress_store (apply_op float st op1) t = None
            \<and> file_store (apply_op float st op1) t = None)"
proof (cases op1)
  case (Download u req)
  with assms show ?thesis by (simp add: download_def)
next
  case (HookCall u d)
  with assms have "t \<noteq> u" by simp
  show ?thesis
  proof (cases "progress_hook float u d st")
    case (Inl e)
    with HookCall show ?thesis by simp
  next
    case (Inr st')
    from progress_hook_frame [OF Inr] \<open>t \<noteq> u\<close> HookCall Inr show ?thesis by simp
  qed
next
  case (RunDownload u req ydl)
  with assms have "t \<noteq> u" by simp
  from start_download_frame [OF this] RunDownload show ?thesis by simp
next
  case (Progress u)
  then show ?thesis by simp
next
  case (DownloadFile files u)
  show ?thesis
  proof (cases "download_file files u st")
    case (Inl e)
    with DownloadFile show ?thesis by simp
  next
    case (Inr r)
    obtain resp bg st' where r: "r = (resp, bg, st')" by (cases r) auto
    from download_file_frame [OF Inr [unfolded r], of t] DownloadFile Inr r
    show ?thesis by (cases "u = t") auto
  qed
qed

lemma foreign_ops_failed:
  assumes "list_all (foreign t) ops" and "file_store st t = None"
  shows "progress_store (foldl (apply_op float) st ops) t = progress_store st t
       \<and> file_store (foldl (apply_op float) st ops) t = None"
  using assms
proof (induction ops arbitrary: st)
  case Nil
  then show ?case by simp
next
  case (Cons a ops)
  from Cons.prems have f: "foreign t a" and r: "list_all (foreign t) ops" by simp_all
  from apply_op_foreign [OF f, of float st] Cons.prems(2)
  have s: "progress_store (apply_op float st a) t = progress_store st t"
          "file_store (apply_op float st a) t = None" by auto
  from Cons.IH [OF r s(2)] s show ?case by simp
qed

subsection \<open>Runs on the sample inputs\<close>

lemma float_decimal_50: "float_decimal ''50.0'' = Some (Finite 50)"
  by (simp add: float_decimal_def isdigit_def digits_value_def)
lemma float_decimal_0: "float_decimal ''0'' = Some (Finite 0)"
  by (simp add: float_decimal_def isdigit_def digits_value_def)


lemma float_decimal_30: "float_decimal ''30.0'' = Some (Finite 30)"
  by (simp add: float_decimal_def isdigit_def digits_value_def)

lemma failing_run:
  "start_download float_decimal (ydl_fixed failing) ''t'' video_request submitted
   = (Some (LibraryError ''DownloadError''),
      \<lparr>progress_store = [''t'' \<mapsto> Finite (- 1)], file_store = Map.empty\<rparr>)"
  by (simp add: start_download_def ydl_fixed_def failing_def submitted_def
        progress_hook_def percent_str_def strip_def remove_char_def isspace_def float_decimal_30 on_exception_def mark_failed_def pop_path_def)

subsection \<open>The audio branch\<close>



subsection \<open>Failure\<close>

text \<open>
  C3. If an exception is raised in the \<^verbatim>\<open>try\<close> block of a task's run, then that
  exception leaves \<open>start_download\<close>, the task's progress is \<open>-1\<close> and \<open>file_store\<close>
  has no entry for the task. After any sequence of later operations (polls and
  fetches of any id, submissions, hook calls and runs of other tasks) the progress is
  still \<open>-1\<close> and a fetch of the task is a 404.
\<close>

theorem failure_is_terminal:
  assumes "raised_in_try float ydl task_id req st = Some e"
    and "list_all (foreign task_id) ops"
  shows "start_download float ydl task_id req st
           = (Some e, snd (start_download float ydl task_id req st))
       \<and> progress_store (snd (start_download float ydl task_id req st)) task_id = Some (Finite (- 1))
       \<and> file_store (snd (start_download float ydl task_id req st)) task_id = None
       \<and> progress_store (foldl (apply_op float) (snd (start_download float ydl task_id req st)) ops) task_id
           = Some (Finite (- 1))
       \<and> progress task_id (foldl (apply_op float) (snd (start_download float ydl task_id req st)) ops)
           = Finite (- 1)
       \<and> download_file files task_id (foldl (apply_op float) (snd (start_download float ydl task_id req st)) ops)
           = Inl (HTTPException 404 ''File not available'')"
proof -
  let ?st' = "snd (start_download float ydl task_id req st)"
  have r: "start_download float ydl task_id req st = (Some e, ?st')"
    using assms(1) start_download_propagates [of float ydl task_id req st]
    by (cases "start_download float ydl task_id req st") simp
  from start_download_raised [OF r]
  have a: "progress_store ?st' task_id = Some (Finite (- 1))" "file_store ?st' task_id = None"
    by simp_all
  from foreign_ops_failed [OF assms(2) a(2), of float] a(1)
  have l: "progress_store (foldl (apply_op float) ?st' ops) task_id = Some (Finite (- 1))"
          "file_store (foldl (apply_op float) ?st' ops) task_id = None" by simp_all
  from l(1) have p: "progress task_id (foldl (apply_op float) ?st' ops) = Finite (- 1)"
    by (simp add: progress_def)
  from r a l p download_file_missing [OF l(2), of files] show ?thesis by simp
qed

theorem failure_is_terminal_witness:
  "raised_in_try float_decimal (ydl_fixed failing) ''t'' video_request submitted
     = Some (LibraryError ''DownloadError'')
   \<and> list_all (foreign ''t'')
       [Progress ''t'', DownloadFile {''/tmp/downloads/t_clip.mp4''} ''t'',
        Download ''u'' audio_request, RunDownload ''u'' audio_request (ydl_fixed two_streams)]
   \<and> progress ''t''
       (foldl (apply_op float_decimal)
          (snd (start_download float_decimal (ydl_fixed failing) ''t'' video_request submitted))
          [Progress ''t'', DownloadFile {''/tmp/downloads/t_clip.mp4''} ''t'',
           Download ''u'' audio_request, RunDownload ''u'' audio_request (ydl_fixed two_streams)])
     = Finite (- 1)
   \<and> download_file {''/tmp/downloads/t_clip.mp4''} ''t''
       (foldl (apply_op float_decimal)
          (snd (start_download float_decimal (ydl_fixed failing) ''t'' video_request submitted))
          [Progress ''t'', DownloadFile {''/tmp/downloads/t_clip.mp4''} ''t'',
           Download ''u'' audio_request, RunDownload ''u'' audio_request (ydl_fixed two_streams)])
     = Inl (HTTPException 404 ''File not available'')"
proof -
  have h: "raised_in_try float_decimal (ydl_fixed failing) ''t'' video_request submitted
     = Some (LibraryError ''DownloadError'')"
    using start_download_propagates [of float_decimal "ydl_fixed failing" "''t''" video_request submitted]
    by (simp add: failing_run)
  have f: "list_all (foreign ''t'')
       [Progress ''t'', DownloadFile {''/tmp/downloads/t_clip.mp4''} ''t'',
        Download ''u'' audio_request, RunDownload ''u'' audio_request (ydl_fixed two_streams)]"
    by simp
  from failure_is_terminal [OF h f, of "{''/tmp/downloads/t_clip.mp4''}"] h f
  show ?thesis by blast
qed

section \<open>The format selector of a video request\<close>









section \<open>Observable points of a run\<close>

lemma hook_states_file_store:
  "s \<in> set (hook_states float task_id ds st) \<Longrightarrow> file_store s = file_store st"
proof (induction ds arbitrary: st)
  case Nil
  then show ?case by simp
next
  case (Cons d ds)
  show ?case
  proof (cases "progress_hook float task_id d st")
    case (Inl e)
    with Cons.prems show ?thesis by simp
  next
    case (Inr st1)
    from progress_hook_frame(1) [OF Inr] have f: "file_store st1 = file_store st" .
    from Cons.prems Inr have "s = st1 \<or> s \<in> set (hook_states float task_id ds st1)" by simp
    with Cons.IH [of st1] f show ?thesis by auto
  qed
qed

lemma run_hooks_last:
  "snd (run_hooks float task_id ds st) = last (st # hook_states float task_id ds st)"
proof (induction ds arbitrary: st)
  case Nil
  then show ?case by simp
next
  case (Cons d ds)
  show ?case
  proof (cases "progress_hook float task_id d st")
    case (Inl e)
    then show ?thesis by simp
  next
    case (Inr st1)
    with Cons.IH [of st1] show ?thesis by simp
  qed
qed

lemma start_download_points_cases:
  fixes float ydl task_id req st
  defines "run \<equiv> ydl (ydl_opts task_id req) (url req)"
  defines "h \<equiv> run_hooks float task_id (hook_events run) st"
  defines "hs \<equiv> map (Pair AfterHook) (hook_states float task_id (hook_events run) st)"
  shows "start_download_points float ydl task_id req st =
     (case fst h of
        Some e \<Rightarrow> hs @ handler_points task_id (snd h)
      | None \<Rightarrow>
          (case prepared run of
             Inl e \<Rightarrow> hs @ handler_points task_id (snd h)
           | Inr name \<Rightarrow>
               hs @ [(AfterPath, store_path task_id req name (snd h)),
                     (AfterDone, finalize task_id req name (snd h))]
                  @ (case on_exit run of
                       Some e \<Rightarrow> handler_points task_id (finalize task_id req name (snd h))
                     | None \<Rightarrow> [])))"
  unfolding run_def h_def hs_def
  by (simp add: start_download_points_def finalize_def Let_def
        split: prod.splits option.splits sum.splits)

lemma start_download_last:
  "snd (start_download float ydl task_id req st)
   = last (st # start_download_states float ydl task_id req st)"
  by (simp add: start_download_cases start_download_states_def start_download_points_cases
        handler_points_def on_exception_def split: option.splits sum.splits)

lemma path_settled_hooks:
  assumes "file_store st task_id = None"
  shows "list_all (path_settled task_id)
           (map (Pair AfterHook) (hook_states float task_id ds st))"
  unfolding list_all_iff
proof
  fix x assume "x \<in> set (map (Pair AfterHook) (hook_states float task_id ds st))"
  then obtain s where x: "x = (AfterHook, s)" and s: "s \<in> set (hook_states float task_id ds st)"
    by auto
  from hook_states_file_store [OF s] assms show "path_settled task_id x"
    by (simp add: x path_implies_done_def)
qed

lemma path_settled_handler: "list_all (path_settled task_id) (handler_points task_id st)"
  by (simp add: handler_points_def path_implies_done_def pop_path_def)

lemma path_implies_done_store_done: "path_implies_done task_id (store_done task_id st)"
  by (simp add: path_implies_done_def store_done_def)

lemma path_implies_done_pop_path: "path_implies_done task_id (pop_path task_id st)"
  by (simp add: path_implies_done_def pop_path_def)

lemma path_settled_run:
  assumes "file_store st task_id = None"
  shows "list_all (path_settled task_id) (start_download_points float ydl task_id req st)"
  using path_settled_hooks [OF assms, of float]
  by (simp add: start_download_points_cases path_settled_handler finalize_def
        path_implies_done_store_done split: option.splits sum.splits)

lemma path_implies_done_foreign:
  assumes "foreign task_id op1" and "path_implies_done task_id s"
  shows "path_implies_done task_id (apply_op float s op1)"
  using apply_op_foreign [OF assms(1), of float s] assms(2)
  by (auto simp: path_implies_done_def)

lemma float_decimal_100: "float_decimal ''100.0'' = Some (Finite 100)"
  by (simp add: float_decimal_def isdigit_def digits_value_def)

lemma percent_str_100: "percent_str [''status'' \<mapsto> ''downloading'', ''_percent_str'' \<mapsto> ''100.0%''] = ''100.0''"
  by (simp add: percent_str_def strip_def remove_char_def isspace_def)

lemma full_percent_points:
  "start_download_points float_decimal (ydl_fixed full_percent) ''t'' video_request submitted
   = [(AfterHook, \<lparr>progress_store = [''t'' \<mapsto> Finite 100], file_store = Map.empty\<rparr>),
      (AfterHook, \<lparr>progress_store = [''t'' \<mapsto> Finite 99], file_store = Map.empty\<rparr>),
      (AfterPath, \<lparr>progress_store = [''t'' \<mapsto> Finite 99],
                   file_store = [''t'' \<mapsto> ''/tmp/downloads/t_clip.mp4'']\<rparr>),
      (AfterDone, \<lparr>progress_store = [''t'' \<mapsto> Finite 100],
                   file_store = [''t'' \<mapsto> ''/tmp/downloads/t_clip.mp4'']\<rparr>)]"
  by (simp add: start_download_points_def ydl_fixed_def full_percent_def video_request_def
        submitted_def progress_hook_def percent_str_100 float_decimal_100
        store_path_def store_done_def splitext_def basename_def dirpart_def)

lemma exit_raises_points:
  "start_download_points float_decimal (ydl_fixed exit_raises) ''t'' video_request submitted
   = [(AfterHook, \<lparr>progress_store = [''t'' \<mapsto> Finite 99], file_store = Map.empty\<rparr>),
      (AfterPath, \<lparr>progress_store = [''t'' \<mapsto> Finite 99],
                   file_store = [''t'' \<mapsto> ''/tmp/downloads/t_clip.mp4'']\<rparr>),
      (AfterDone, \<lparr>progress_store = [''t'' \<mapsto> Finite 100],
                   file_store = [''t'' \<mapsto> ''/tmp/downloads/t_clip.mp4'']\<rparr>),
      (AfterSentinel, \<lparr>progress_store = [''t'' \<mapsto> Finite (- 1)],
                       file_store = [''t'' \<mapsto> ''/tmp/downloads/t_clip.mp4'']\<rparr>),
      (AfterPop, \<lparr>progress_store = [''t'' \<mapsto> Finite (- 1)], file_store = Map.empty\<rparr>)]"
  by (simp add: start_download_points_def ydl_fixed_def exit_raises_def video_request_def
        submitted_def progress_hook_def handler_points_def mark_failed_def pop_path_def
        store_path_def store_done_def splitext_def basename_def dirpart_def)

lemma full_percent_run:
  "start_download float_decimal (ydl_fixed full_percent) ''t'' video_request submitted
   = (None, \<lparr>progress_store = [''t'' \<mapsto> Finite 100],
             file_store = [''t'' \<mapsto> ''/tmp/downloads/t_clip.mp4'']\<rparr>)"
  by (simp add: start_download_def ydl_fixed_def full_percent_def video_request_def
        submitted_def progress_hook_def percent_str_100 float_decimal_100
        finalize_def store_path_def store_done_def splitext_def basename_def dirpart_def)

text \<open>
  C1 (as amended). At every observable point of a task's run that starts without a
  stored path, the result path is stored only if the stored progress is 100, except at
  the two points inside a pair of assignments: after the path is stored and before
  progress is set to 100, and after progress is set to \<open>-1\<close> and before the path is
  popped. The assignment that closes either pair restores the property in whatever
  state it runs (the pop is also the first of the two removals of a fetch), and every
  operation foreign to the task preserves it. A run that
  returns has recorded the path and set progress to 100; a run that raises has no
  path and progress \<open>-1\<close>; a successful fetch removes both entries. The converse, and
  the property at the two points set aside, fail on the runs of the counterexample
  below.
\<close>

theorem path_only_when_done:
  assumes "file_store st task_id = None"
  shows "list_all (path_settled task_id) (start_download_points float ydl task_id req st)
       \<and> snd (start_download float ydl task_id req st)
           = last (st # start_download_states float ydl task_id req st)
       \<and> (fst (start_download float ydl task_id req st) = None \<longrightarrow>
            file_store (snd (start_download float ydl task_id req st)) task_id \<noteq> None
            \<and> progress_store (snd (start_download float ydl task_id req st)) task_id = Some (Finite 100))
       \<and> (fst (start_download float ydl task_id req st) \<noteq> None \<longrightarrow>
            file_store (snd (start_download float ydl task_id req st)) task_id = None
            \<and> progress_store (snd (start_download float ydl task_id req st)) task_id = Some (Finite (- 1)))
       \<and> (\<forall>files s resp bg s'. download_file files task_id s = Inr (resp, bg, s') \<longrightarrow>
            file_store s' task_id = None \<and> progress_store s' task_id = None)
       \<and> (\<forall>op1 s. foreign task_id op1 \<and> path_implies_done task_id s \<longrightarrow>
            path_implies_done task_id (apply_op float s op1))
       \<and> (\<forall>s. path_implies_done task_id (store_done task_id s))
       \<and> (\<forall>s. path_implies_done task_id (pop_path task_id s))"
proof (intro conjI allI impI)
  show "list_all (path_settled task_id) (start_download_points float ydl task_id req st)"
    by (rule path_settled_run [OF assms])
  show "snd (start_download float ydl task_id req st)
           = last (st # start_download_states float ydl task_id req st)"
    by (rule start_download_last)
next
  assume n: "fst (start_download float ydl task_id req st) = None"
  then have s: "start_download float ydl task_id req st
                  = (None, snd (start_download float ydl task_id req st))"
    by (cases "start_download float ydl task_id req st") simp
  from start_download_returned [OF s]
  show "file_store (snd (start_download float ydl task_id req st)) task_id \<noteq> None"
    and "progress_store (snd (start_download float ydl task_id req st)) task_id = Some (Finite 100)"
    by auto
next
  assume n: "fst (start_download float ydl task_id req st) \<noteq> None"
  then obtain e where s: "start_download float ydl task_id req st
                  = (Some e, snd (start_download float ydl task_id req st))"
    by (cases "start_download float ydl task_id req st") auto
  from start_download_raised [OF s]
  show "file_store (snd (start_download float ydl task_id req st)) task_id = None"
    and "progress_store (snd (start_download float ydl task_id req st)) task_id = Some (Finite (- 1))"
    by auto
next
  fix files s resp bg s'
  assume "download_file files task_id s = Inr (resp, bg, s')"
  from download_file_frame [OF this, of task_id]
  show "file_store s' task_id = None" and "progress_store s' task_id = None" by simp_all
next
  fix op1 s
  assume "foreign task_id op1 \<and> path_implies_done task_id s"
  then show "path_implies_done task_id (apply_op float s op1)"
    using path_implies_done_foreign by blast
next
  fix s
  show "path_implies_done task_id (store_done task_id s)"
    by (rule path_implies_done_store_done)
  show "path_implies_done task_id (pop_path task_id s)"
    by (rule path_implies_done_pop_path)
qed

theorem path_iff_done_counterexample:
  "start_download_points float_decimal (ydl_fixed full_percent) ''t'' video_request submitted
   = [(AfterHook, \<lparr>progress_store = [''t'' \<mapsto> Finite 100], file_store = Map.empty\<rparr>),
      (AfterHook, \<lparr>progress_store = [''t'' \<mapsto> Finite 99], file_store = Map.empty\<rparr>),
      (AfterPath, \<lparr>progress_store = [''t'' \<mapsto> Finite 99],
                   file_store = [''t'' \<mapsto> ''/tmp/downloads/t_clip.mp4'']\<rparr>),
      (AfterDone, \<lparr>progress_store = [''t'' \<mapsto> Finite 100],
                   file_store = [''t'' \<mapsto> ''/tmp/downloads/t_clip.mp4'']\<rparr>)]
   \<and> \<not> path_iff_done ''t'' \<lparr>progress_store = [''t'' \<mapsto> Finite 100], file_store = Map.empty\<rparr>
   \<and> \<not> path_iff_done ''t'' \<lparr>progress_store = [''t'' \<mapsto> Finite 99],
                                file_store = [''t'' \<mapsto> ''/tmp/downloads/t_clip.mp4'']\<rparr>
   \<and> \<not> path_implies_done ''t'' \<lparr>progress_store = [''t'' \<mapsto> Finite 99],
                                    file_store = [''t'' \<mapsto> ''/tmp/downloads/t_clip.mp4'']\<rparr>
   \<and> start_download_points float_decimal (ydl_fixed exit_raises) ''t'' video_request submitted ! 3
       = (AfterSentinel, \<lparr>progress_store = [''t'' \<mapsto> Finite (- 1)],
                          file_store = [''t'' \<mapsto> ''/tmp/downloads/t_clip.mp4'']\<rparr>)
   \<and> \<not> path_implies_done ''t'' \<lparr>progress_store = [''t'' \<mapsto> Finite (- 1)],
                                    file_store = [''t'' \<mapsto> ''/tmp/downloads/t_clip.mp4'']\<rparr>"
  by (simp add: full_percent_points exit_raises_points path_iff_done_def path_implies_done_def)

theorem path_only_when_done_witness:
  "file_store submitted ''t'' = None
   \<and> list_all (path_settled ''t'')
       (start_download_points float_decimal (ydl_fixed full_percent) ''t'' video_request submitted)
   \<and> map fst (start_download_points float_decimal (ydl_fixed full_percent) ''t'' video_request submitted)
       = [AfterHook, AfterHook, AfterPath, AfterDone]
   \<and> fst (start_download float_decimal (ydl_fixed full_percent) ''t'' video_request submitted) = None
   \<and> file_store (snd (start_download float_decimal (ydl_fixed full_percent) ''t'' video_request submitted)) ''t''
       = Some ''/tmp/downloads/t_clip.mp4''
   \<and> progress_store (snd (start_download float_decimal (ydl_fixed full_percent) ''t'' video_request submitted)) ''t''
       = Some (Finite 100)
   \<and> fst (start_download float_decimal (ydl_fixed failing) ''t'' video_request submitted) \<noteq> None
   \<and> file_store (snd (start_download float_decimal (ydl_fixed failing) ''t'' video_request submitted)) ''t''
       = None
   \<and> progress_store (snd (start_download float_decimal (ydl_fixed failing) ''t'' video_request submitted)) ''t''
       = Some (Finite (- 1))"
proof -
  have h: "file_store submitted ''t'' = None" by (simp add: submitted_def)
  have n: "fst (start_download float_decimal (ydl_fixed full_percent) ''t'' video_request submitted) = None"
    by (simp add: full_percent_run)
  have p: "file_store (snd (start_download float_decimal (ydl_fixed full_percent) ''t'' video_request submitted)) ''t''
       = Some ''/tmp/downloads/t_clip.mp4''"
    by (simp add: full_percent_run)
  have m: "map fst (start_download_points float_decimal (ydl_fixed full_percent) ''t'' video_request submitted)
       = [AfterHook, AfterHook, AfterPath, AfterDone]"
    by (simp add: full_percent_points)
  have e: "fst (start_download float_decimal (ydl_fixed failing) ''t'' video_request submitted) \<noteq> None"
    by (simp add: failing_run)
  from path_only_when_done [OF h, of float_decimal "ydl_fixed full_percent" video_request]
       path_only_when_done [OF h, of float_decimal "ydl_fixed failing" video_request]
       h n p m e
  show ?thesis by blast
qed

section \<open>The sequence of stored progress values\<close>

lemma py_le_refl: "at_most_99 v \<Longrightarrow> py_le v v"
  by (cases v) (simp_all add: at_most_99_def)

lemma py_le_100: "at_most_99 v \<Longrightarrow> py_le v (Finite 100)"
  by (cases v) (simp_all add: at_most_99_def)

lemma nondecreasing_snoc:
  "nondecreasing (x # xs) \<Longrightarrow> py_le (last (x # xs)) y \<Longrightarrow> nondecreasing (x # xs @ [y])"
proof (induction xs arbitrary: x)
  case Nil
  then show ?case by simp
next
  case (Cons a xs)
  then show ?case by simp
qed

lemma nondecreasing_takeWhile:
  "nondecreasing xs \<Longrightarrow> nondecreasing (takeWhile P xs)"
proof (induction xs rule: nondecreasing.induct)
  case 1
  then show ?case by simp
next
  case (2 x)
  then show ?case by simp
next
  case (3 x y ys)
  then show ?case by (auto split: if_splits)
qed

lemma takeWhile_stop:
  "\<not> P y \<Longrightarrow> takeWhile P (xs @ y # ys) = takeWhile P xs"
  by (induction xs) simp_all

lemma progress_hook_stores:
  assumes "progress_hook float task_id d st = Inr st'"
  shows "progress task_id st' = (case reported float d of Some v \<Rightarrow> v | None \<Rightarrow> progress task_id st)"
  using assms
  by (auto simp: progress_hook_def reported_def progress_def split: option.splits if_splits)

lemma reports_Cons:
  "reports float (d # ds) = (case reported float d of None \<Rightarrow> [] | Some v \<Rightarrow> [v]) @ reports float ds"
  by (simp add: reports_def)

lemma hook_values_monotone:
  assumes "nondecreasing (progress task_id st # reports float ds)"
    and "list_all at_most_99 (progress task_id st # reports float ds)"
  shows "nondecreasing (progress task_id st # map (progress task_id) (hook_states float task_id ds st))
       \<and> list_all at_most_99 (progress task_id st # map (progress task_id) (hook_states float task_id ds st))"
  using assms
proof (induction ds arbitrary: st)
  case Nil
  then show ?case by simp
next
  case (Cons d ds)
  show ?case
  proof (cases "progress_hook float task_id d st")
    case (Inl e)
    with Cons.prems show ?thesis by simp
  next
    case (Inr st1)
    note st1 = progress_hook_stores [OF Inr]
    show ?thesis
    proof (cases "reported float d")
      case None
      with st1 have eq: "progress task_id st1 = progress task_id st" by simp
      from Cons.prems None have
        "nondecreasing (progress task_id st1 # reports float ds)"
        "list_all at_most_99 (progress task_id st1 # reports float ds)"
        by (simp_all add: reports_Cons eq)
      from Cons.IH [OF this] Cons.prems(2) Inr eq show ?thesis
        by (simp add: py_le_refl)
    next
      case (Some v)
      with st1 have eq: "progress task_id st1 = v" by simp
      from Cons.prems Some have
        "py_le (progress task_id st) v" "at_most_99 (progress task_id st)"
        "nondecreasing (progress task_id st1 # reports float ds)"
        "list_all at_most_99 (progress task_id st1 # reports float ds)"
        by (simp_all add: reports_Cons eq)
      from Cons.IH [OF this(3,4)] this(1,2) Inr eq show ?thesis by simp
    qed
  qed
qed

lemma last_at_most_99:
  "list_all at_most_99 (x # xs) \<Longrightarrow> at_most_99 (last (x # xs))"
  by (induction xs arbitrary: x) simp_all

lemma progress_store_path:
  "progress task_id (store_path task_id req name st) = progress task_id st"
  by (simp add: progress_def store_path_def Let_def)

lemma progress_finalize: "progress task_id (finalize task_id req name st) = Finite 100"
  by (simp add: progress_def finalize_result)

lemma progress_handler_points:
  "map (\<lambda>x. progress task_id (snd x)) (handler_points task_id st)
   = [Finite (- 1), Finite (- 1)]"
  by (simp add: handler_points_def progress_def mark_failed_def pop_path_def)

lemma progress_after_hooks:
  "progress task_id (snd (run_hooks float task_id ds st))
   = last (progress task_id st # map (progress task_id) (hook_states float task_id ds st))"
  using last_map [of "st # hook_states float task_id ds st" "progress task_id"]
  by (simp add: run_hooks_last)

lemma percent_str_50: "percent_str [''status'' \<mapsto> ''downloading'', ''_percent_str'' \<mapsto> '' 50.0%''] = ''50.0''"
  by (simp add: percent_str_def strip_def remove_char_def isspace_def)

lemma percent_str_default: "percent_str [''status'' \<mapsto> ''downloading''] = ''0''"
  by (simp add: percent_str_def strip_def remove_char_def isspace_def)

lemma two_streams_values:
  "progress_values float_decimal (ydl_fixed two_streams) ''t'' video_request submitted
   = [Finite 0, Finite 50, Finite 99, Finite 0, Finite 0, Finite 100]"
  by (simp add: progress_values_def start_download_states_def start_download_points_def
        ydl_fixed_def two_streams_def
        video_request_def submitted_def progress_hook_def percent_str_50 percent_str_default
        float_decimal_50 float_decimal_0 store_path_def store_done_def progress_def)

lemma percent_str_na: "percent_str [''status'' \<mapsto> ''downloading'', ''_percent_str'' \<mapsto> ''N/A''] = ''N/A''"
  by (simp add: percent_str_def strip_def remove_char_def isspace_def)

lemma float_decimal_na: "float_decimal ''N/A'' = None"
  by (simp add: float_decimal_def isdigit_def)

lemma steady_reports:
  "reports float_decimal (hook_events (ydl_fixed steady (ydl_opts ''t'' video_request) (url video_request)))
   = [Finite 50, Finite 99]"
  by (simp add: reports_def reported_def ydl_fixed_def steady_def percent_str_50 percent_str_na
        float_decimal_50 float_decimal_na)

lemma steady_values:
  "progress_values float_decimal (ydl_fixed steady) ''t'' video_request submitted
   = [Finite 0, Finite 50, Finite 50, Finite 99, Finite 99, Finite 100]"
  by (simp add: progress_values_def start_download_states_def start_download_points_def
        ydl_fixed_def steady_def
        video_request_def submitted_def progress_hook_def percent_str_50 percent_str_na
        float_decimal_50 float_decimal_na store_path_def store_done_def progress_def)

text \<open>
  C2 (as amended). Call reported values the parsed percentages of the \<^verbatim>\<open>"downloading"\<close>
  events and 99 for each \<^verbatim>\<open>"finished"\<close> event. If, starting from the progress stored when
  the run begins, the reported values of a task's run are non-decreasing and at most 99,
  then the progress values stored over the run are non-decreasing up to and including
  the final 100, that is until the sentinel \<open>-1\<close>: a parse failure and an event of
  another status keep the stored value, and finalization stores 100. Without the
  condition on the reports the claim fails: the counterexample below stores 0 after 99.
\<close>

theorem progress_monotone_on_monotone_reports:
  assumes "nondecreasing (progress task_id st
             # reports float (hook_events (ydl (ydl_opts task_id req) (url req))))"
    and "list_all at_most_99 (progress task_id st
             # reports float (hook_events (ydl (ydl_opts task_id req) (url req))))"
  shows "nondecreasing (takeWhile not_failed (progress_values float ydl task_id req st))"
proof -
  let ?ds = "hook_events (ydl (ydl_opts task_id req) (url req))"
  let ?v0 = "progress task_id st"
  let ?vs = "map (progress task_id) (hook_states float task_id ?ds st)"
  let ?l = "progress task_id (snd (run_hooks float task_id ?ds st))"
  have l: "?l = last (?v0 # ?vs)" by (rule progress_after_hooks)
  from hook_values_monotone [OF assms]
  have m: "nondecreasing (?v0 # ?vs)" and b: "list_all at_most_99 (?v0 # ?vs)" by simp_all
  from last_at_most_99 [OF b] l have l99: "at_most_99 ?l" by simp
  have "py_le (last (?v0 # ?vs)) ?l" using py_le_refl [OF l99] l by simp
  from nondecreasing_snoc [OF m this]
  have ml: "nondecreasing (?v0 # ?vs @ [?l])" .
  have "py_le (last (?v0 # ?vs @ [?l])) (Finite 100)"
    using py_le_100 [OF l99] by simp
  from nondecreasing_snoc [OF ml this]
  have m100: "nondecreasing (?v0 # ?vs @ [?l, Finite 100])" by simp
  have stop: "\<not> not_failed (Finite (- 1))" by (simp add: not_failed_def)
  have t1: "nondecreasing (takeWhile not_failed (?v0 # ?vs))"
    by (rule nondecreasing_takeWhile [OF m])
  have t2: "nondecreasing (takeWhile not_failed (?v0 # ?vs @ [?l, Finite 100]))"
    by (rule nondecreasing_takeWhile [OF m100])
  have f1: "takeWhile not_failed (?v0 # ?vs @ [Finite (- 1), Finite (- 1)])
              = takeWhile not_failed (?v0 # ?vs)"
    using takeWhile_stop [of not_failed "Finite (- 1)" "?v0 # ?vs" "[Finite (- 1)]"] stop by simp
  have f2: "takeWhile not_failed (?v0 # ?vs @ [?l, Finite 100, Finite (- 1), Finite (- 1)])
              = takeWhile not_failed (?v0 # ?vs @ [?l, Finite 100])"
    using takeWhile_stop [of not_failed "Finite (- 1)" "?v0 # ?vs @ [?l, Finite 100]" "[Finite (- 1)]"]
      stop by simp
  have "progress_values float ydl task_id req st = ?v0 # ?vs @ [Finite (- 1), Finite (- 1)]
      \<or> progress_values float ydl task_id req st = ?v0 # ?vs @ [?l, Finite 100]
      \<or> progress_values float ydl task_id req st
           = ?v0 # ?vs @ [?l, Finite 100, Finite (- 1), Finite (- 1)]"
    by (simp add: progress_values_def start_download_states_def start_download_points_cases
          progress_finalize progress_store_path progress_handler_points
          comp_def split: option.splits sum.splits)
  with t1 t2 f1 f2 show ?thesis by metis
qed

theorem progress_monotone_on_monotone_reports_witness:
  "nondecreasing (progress ''t'' submitted
     # reports float_decimal (hook_events (ydl_fixed steady (ydl_opts ''t'' video_request) (url video_request))))
   \<and> list_all at_most_99 (progress ''t'' submitted
     # reports float_decimal (hook_events (ydl_fixed steady (ydl_opts ''t'' video_request) (url video_request))))
   \<and> nondecreasing [Finite 0, Finite 50, Finite 50, Finite 99, Finite 99, Finite 100]
   \<and> takeWhile not_failed (progress_values float_decimal (ydl_fixed steady) ''t'' video_request submitted)
       = [Finite 0, Finite 50, Finite 50, Finite 99, Finite 99, Finite 100]"
proof -
  have p: "progress ''t'' submitted = Finite 0" by (simp add: progress_def submitted_def)
  have a: "nondecreasing (progress ''t'' submitted
     # reports float_decimal (hook_events (ydl_fixed steady (ydl_opts ''t'' video_request) (url video_request))))"
    by (simp add: steady_reports p)
  have b: "list_all at_most_99 (progress ''t'' submitted
     # reports float_decimal (hook_events (ydl_fixed steady (ydl_opts ''t'' video_request) (url video_request))))"
    by (simp add: steady_reports p at_most_99_def)
  have c: "takeWhile not_failed (progress_values float_decimal (ydl_fixed steady) ''t'' video_request submitted)
       = [Finite 0, Finite 50, Finite 50, Finite 99, Finite 99, Finite 100]"
    by (simp add: steady_values not_failed_def)
  from progress_monotone_on_monotone_reports
         [where task_id = "''t''" and st = submitted and float = float_decimal
            and ydl = "ydl_fixed steady" and req = video_request] a b c
  show ?thesis by simp
qed

theorem progress_monotone_counterexample:
  "\<not> nondecreasing (takeWhile in_progress
        (progress_values float_decimal (ydl_fixed two_streams) ''t'' video_request submitted))"
  by (simp add: two_streams_values in_progress_def)

section \<open>The contract of the progress hook\<close>

lemma steady_run:
  "start_download float_decimal (ydl_fixed steady) ''t'' video_request submitted
   = (None, \<lparr>progress_store = [''t'' \<mapsto> Finite 100],
             file_store = [''t'' \<mapsto> ''/tmp/downloads/t_clip.mp4'']\<rparr>)"
  by (simp add: start_download_def ydl_fixed_def steady_def video_request_def
        submitted_def progress_hook_def percent_str_50 percent_str_na float_decimal_50
        float_decimal_na finalize_def store_path_def store_done_def splitext_def
        basename_def dirpart_def)

lemma exit_raises_run:
  "start_download float_decimal (ydl_fixed exit_raises) ''t'' video_request submitted
   = (Some (LibraryError ''OSError''),
      \<lparr>progress_store = [''t'' \<mapsto> Finite (- 1)], file_store = Map.empty\<rparr>)"
  by (simp add: start_download_def ydl_fixed_def exit_raises_def video_request_def
        submitted_def progress_hook_def finalize_def store_path_def store_done_def
        on_exception_def mark_failed_def pop_path_def splitext_def basename_def dirpart_def)

lemma exit_raises_values:
  "progress_values float_decimal (ydl_fixed exit_raises) ''t'' video_request submitted
   = [Finite 0, Finite 99, Finite 99, Finite 100, Finite (- 1), Finite (- 1)]"
  unfolding progress_values_def start_download_states_def exit_raises_points
  by (simp add: progress_def submitted_def)

lemma hook_downloading_parsed:
  "d ''status'' = Some ''downloading'' \<Longrightarrow> float (percent_str d) = Some v \<Longrightarrow>
   progress_hook float task_id d st
   = Inr (st\<lparr>progress_store := (progress_store st)(task_id \<mapsto> v)\<rparr>)"
  by (simp add: progress_hook_def)

lemma hook_downloading_unparsed:
  "d ''status'' = Some ''downloading'' \<Longrightarrow> float (percent_str d) = None \<Longrightarrow>
   progress_hook float task_id d st
   = Inr (st\<lparr>progress_store := (progress_store st)(task_id \<mapsto> progress task_id st)\<rparr>)"
  by (simp add: progress_hook_def progress_def)

lemma hook_finished:
  "d ''status'' = Some ''finished'' \<Longrightarrow>
   progress_hook float task_id d st
   = Inr (st\<lparr>progress_store := (progress_store st)(task_id \<mapsto> Finite 99)\<rparr>)"
  by (simp add: progress_hook_def)

lemma hook_sets_100:
  assumes "progress_hook float task_id d st = Inr st'"
    and "progress_store st' task_id = Some (Finite 100)"
    and "progress_store st task_id \<noteq> Some (Finite 100)"
  shows "d ''status'' = Some ''downloading'' \<and> float (percent_str d) = Some (Finite 100)"
  using assms
  by (auto simp: progress_hook_def split: option.splits if_splits)

lemma final_progress_100_iff:
  "fst (start_download float ydl task_id req st) = None
   \<longleftrightarrow> progress_store (snd (start_download float ydl task_id req st)) task_id = Some (Finite 100)"
proof (cases "fst (start_download float ydl task_id req st)")
  case None
  then have "start_download float ydl task_id req st
               = (None, snd (start_download float ydl task_id req st))"
    by (cases "start_download float ydl task_id req st") simp
  from start_download_returned [OF this] None show ?thesis by simp
next
  case (Some e)
  then have "start_download float ydl task_id req st
               = (Some e, snd (start_download float ydl task_id req st))"
    by (cases "start_download float ydl task_id req st") simp
  from start_download_raised [OF this] Some show ?thesis by simp
qed

lemma after_done_iff:
  "(\<exists>s. (AfterDone, s) \<in> set (start_download_points float ydl task_id req st))
   \<longleftrightarrow> (fst (run_hooks float task_id (hook_events (ydl (ydl_opts task_id req) (url req))) st) = None
        \<and> (\<exists>name. prepared (ydl (ydl_opts task_id req) (url req)) = Inr name))"
  by (auto simp: start_download_points_cases handler_points_def split: option.splits sum.splits)

lemma after_done_progress:
  "(AfterDone, s) \<in> set (start_download_points float ydl task_id req st) \<Longrightarrow>
   progress_store s task_id = Some (Finite 100)"
  by (auto simp: start_download_points_cases handler_points_def finalize_result
        split: option.splits sum.splits)

lemma other_statements_progress:
  "progress_store (store_path task_id req name s) = progress_store s"
  "progress_store (pop_path task_id s) = progress_store s"
  "progress_store (mark_failed task_id s) task_id = Some (Finite (- 1))"
  by (simp_all add: store_path_def pop_path_def mark_failed_def Let_def)

text \<open>
  C5 (as amended). For every hook call: with status \<^verbatim>\<open>"downloading"\<close> the percent string
  (its \<^verbatim>\<open>%\<close> signs removed, then stripped) is parsed and the value stored as the task's
  progress; when parsing fails the value a poll would read is stored again, which is
  the previously stored value if there is one and 0.0 otherwise; with status
  \<^verbatim>\<open>"finished"\<close> progress is set to 99. A hook call raises the progress to 100 only as a \<^verbatim>\<open>"downloading"\<close> event
  whose percent string parses to 100. Apart from the hook, the run stores 100 in one
  statement only, \<^verbatim>\<open>progress_store[task_id] = 100.0\<close>, which runs exactly when every hook
  call has returned and the library has prepared a file name; the other statements
  keep the progress or set it to \<open>-1\<close>. The progress a run leaves behind is 100 exactly
  when nothing was raised in the \<^verbatim>\<open>try\<close> block: an exception on leaving the \<^verbatim>\<open>with\<close>
  block replaces the 100 by \<open>-1\<close>.
\<close>

theorem progress_hook_contract:
  "(\<forall>v. d ''status'' = Some ''downloading'' \<and> float (percent_str d) = Some v \<longrightarrow>
        progress_hook float task_id d st
        = Inr (st\<lparr>progress_store := (progress_store st)(task_id \<mapsto> v)\<rparr>))
   \<and> (d ''status'' = Some ''downloading'' \<and> float (percent_str d) = None \<longrightarrow>
        progress_hook float task_id d st
        = Inr (st\<lparr>progress_store := (progress_store st)(task_id \<mapsto> progress task_id st)\<rparr>)
        \<and> (\<forall>w. progress_store st task_id = Some w \<longrightarrow> progress task_id st = w)
        \<and> (progress_store st task_id = None \<longrightarrow> progress task_id st = Finite 0))
   \<and> (d ''status'' = Some ''finished'' \<longrightarrow>
        progress_hook float task_id d st
        = Inr (st\<lparr>progress_store := (progress_store st)(task_id \<mapsto> Finite 99)\<rparr>))
   \<and> (\<forall>st'. progress_hook float task_id d st = Inr st'
              \<and> progress_store st' task_id = Some (Finite 100)
              \<and> progress_store st task_id \<noteq> Some (Finite 100) \<longrightarrow>
              d ''status'' = Some ''downloading'' \<and> float (percent_str d) = Some (Finite 100))
   \<and> ((\<exists>s. (AfterDone, s) \<in> set (start_download_points float ydl task_id req st))
        \<longleftrightarrow> (fst (run_hooks float task_id
                      (hook_events (ydl (ydl_opts task_id req) (url req))) st) = None
             \<and> (\<exists>name. prepared (ydl (ydl_opts task_id req) (url req)) = Inr name)))
   \<and> (\<forall>s. (AfterDone, s) \<in> set (start_download_points float ydl task_id req st) \<longrightarrow>
            progress_store s task_id = Some (Finite 100))
   \<and> (\<forall>name s. progress_store (store_path task_id req name s) = progress_store s)
   \<and> (\<forall>s. progress_store (pop_path task_id s) = progress_store s)
   \<and> (\<forall>s. progress_store (mark_failed task_id s) task_id = Some (Finite (- 1)))
   \<and> (fst (start_download float ydl task_id req st) = None \<longleftrightarrow>
        raised_in_try float ydl task_id req st = None)
   \<and> (fst (start_download float ydl task_id req st) = None \<longleftrightarrow>
        progress_store (snd (start_download float ydl task_id req st)) task_id = Some (Finite 100))"
proof -
  have 1: "\<forall>v. d ''status'' = Some ''downloading'' \<and> float (percent_str d) = Some v \<longrightarrow>
        progress_hook float task_id d st
        = Inr (st\<lparr>progress_store := (progress_store st)(task_id \<mapsto> v)\<rparr>)"
    by (simp add: hook_downloading_parsed)
  have 2: "d ''status'' = Some ''downloading'' \<and> float (percent_str d) = None \<longrightarrow>
        progress_hook float task_id d st
        = Inr (st\<lparr>progress_store := (progress_store st)(task_id \<mapsto> progress task_id st)\<rparr>)
        \<and> (\<forall>w. progress_store st task_id = Some w \<longrightarrow> progress task_id st = w)
        \<and> (progress_store st task_id = None \<longrightarrow> progress task_id st = Finite 0)"
    by (simp add: hook_downloading_unparsed progress_def)
  have 3: "d ''status'' = Some ''finished'' \<longrightarrow>
        progress_hook float task_id d st
        = Inr (st\<lparr>progress_store := (progress_store st)(task_id \<mapsto> Finite 99)\<rparr>)"
    by (simp add: hook_finished)
  have 4: "\<forall>st'. progress_hook float task_id d st = Inr st'
              \<and> progress_store st' task_id = Some (Finite 100)
              \<and> progress_store st task_id \<noteq> Some (Finite 100) \<longrightarrow>
              d ''status'' = Some ''downloading'' \<and> float (percent_str d) = Some (Finite 100)"
    using hook_sets_100 by blast
  note 5 = after_done_iff [of float ydl task_id req st]
  have 6: "\<forall>s. (AfterDone, s) \<in> set (start_download_points float ydl task_id req st) \<longrightarrow>
            progress_store s task_id = Some (Finite 100)"
    using after_done_progress by blast
  have 7: "\<forall>name s. progress_store (store_path task_id req name s) = progress_store s"
    by (simp add: other_statements_progress)
  have 8: "\<forall>s. progress_store (pop_path task_id s) = progress_store s"
    by (simp add: other_statements_progress)
  have 9: "\<forall>s. progress_store (mark_failed task_id s) task_id = Some (Finite (- 1))"
    by (simp add: other_statements_progress)
  have 10: "fst (start_download float ydl task_id req st) = None \<longleftrightarrow>
        raised_in_try float ydl task_id req st = None"
    by (simp add: start_download_propagates)
  note 11 = final_progress_100_iff [of float ydl task_id req st]
  show ?thesis
    by (intro conjI) (rule 1 2 3 4 5 6 7 8 9 10 11)+
qed

theorem progress_hook_contract_witness:
  "progress_hook float_decimal ''t'' [''status'' \<mapsto> ''downloading'', ''_percent_str'' \<mapsto> '' 50.0%'']
     submitted
   = Inr \<lparr>progress_store = [''t'' \<mapsto> Finite 50], file_store = Map.empty\<rparr>
   \<and> progress_hook float_decimal ''t'' [''status'' \<mapsto> ''downloading'', ''_percent_str'' \<mapsto> ''N/A'']
       \<lparr>progress_store = [''t'' \<mapsto> Finite 50], file_store = Map.empty\<rparr>
     = Inr \<lparr>progress_store = [''t'' \<mapsto> Finite 50], file_store = Map.empty\<rparr>
   \<and> progress_hook float_decimal ''t'' [''status'' \<mapsto> ''finished'']
       \<lparr>progress_store = [''t'' \<mapsto> Finite 50], file_store = Map.empty\<rparr>
     = Inr \<lparr>progress_store = [''t'' \<mapsto> Finite 99], file_store = Map.empty\<rparr>
   \<and> fst (start_download float_decimal (ydl_fixed steady) ''t'' video_request submitted) = None
   \<and> progress_store (snd (start_download float_decimal (ydl_fixed steady) ''t'' video_request submitted)) ''t''
       = Some (Finite 100)
   \<and> fst (start_download float_decimal (ydl_fixed failing) ''t'' video_request submitted) \<noteq> None
   \<and> progress_store (snd (start_download float_decimal (ydl_fixed failing) ''t'' video_request submitted)) ''t''
       \<noteq> Some (Finite 100)"
proof -
  let ?d50 = "[''status'' \<mapsto> ''downloading'', ''_percent_str'' \<mapsto> '' 50.0%'']"
  let ?dna = "[''status'' \<mapsto> ''downloading'', ''_percent_str'' \<mapsto> ''N/A'']"
  let ?dfin = "[''status'' \<mapsto> ''finished'']"
  let ?s50 = "\<lparr>progress_store = [''t'' \<mapsto> Finite 50], file_store = (Map.empty :: task_id \<rightharpoonup> string)\<rparr>"
  have a: "?d50 ''status'' = Some ''downloading'' \<and> float_decimal (percent_str ?d50) = Some (Finite 50)"
    by (simp add: percent_str_50 float_decimal_50)
  have b: "?dna ''status'' = Some ''downloading'' \<and> float_decimal (percent_str ?dna) = None"
    by (simp add: percent_str_na float_decimal_na)
  have c: "?dfin ''status'' = Some ''finished''" by simp
  have 1: "progress_hook float_decimal ''t'' ?d50 submitted
           = Inr (submitted\<lparr>progress_store := (progress_store submitted)(''t'' \<mapsto> Finite 50)\<rparr>)"
    using progress_hook_contract [of ?d50 float_decimal "''t''" submitted] a by blast
  have 2: "progress_hook float_decimal ''t'' ?dna ?s50
           = Inr (?s50\<lparr>progress_store := (progress_store ?s50)(''t'' \<mapsto> progress ''t'' ?s50)\<rparr>)"
    using progress_hook_contract [of ?dna float_decimal "''t''" ?s50] b by blast
  have 3: "progress_hook float_decimal ''t'' ?dfin ?s50
           = Inr (?s50\<lparr>progress_store := (progress_store ?s50)(''t'' \<mapsto> Finite 99)\<rparr>)"
    using progress_hook_contract [of ?dfin float_decimal "''t''" ?s50] c by blast
  have n: "fst (start_download float_decimal (ydl_fixed steady) ''t'' video_request submitted) = None"
    by (simp add: steady_run)
  have 4: "progress_store (snd (start_download float_decimal (ydl_fixed steady) ''t'' video_request submitted)) ''t''
             = Some (Finite 100)"
  proof -
    from progress_hook_contract
            [where d = ?dfin and float = float_decimal and task_id = "''t''" and st = submitted
               and ydl = "ydl_fixed steady" and req = video_request]
    have "fst (start_download float_decimal (ydl_fixed steady) ''t'' video_request submitted) = None
          \<longleftrightarrow> progress_store (snd (start_download float_decimal (ydl_fixed steady) ''t''
                  video_request submitted)) ''t'' = Some (Finite 100)"
      by (elim conjE)
    with n show ?thesis by simp
  qed
  have e: "fst (start_download float_decimal (ydl_fixed failing) ''t'' video_request submitted) \<noteq> None"
    by (simp add: failing_run)
  have 5: "progress_store (snd (start_download float_decimal (ydl_fixed failing) ''t'' video_request submitted)) ''t''
             \<noteq> Some (Finite 100)"
  proof -
    from progress_hook_contract
            [where d = ?dfin and float = float_decimal and task_id = "''t''" and st = submitted
               and ydl = "ydl_fixed failing" and req = video_request]
    have "fst (start_download float_decimal (ydl_fixed failing) ''t'' video_request submitted) = None
          \<longleftrightarrow> progress_store (snd (start_download float_decimal (ydl_fixed failing) ''t''
                  video_request submitted)) ''t'' = Some (Finite 100)"
      by (elim conjE)
    with e show ?thesis by simp
  qed
  show ?thesis
    unfolding 1 2 3 using n 4 e 5 by (simp add: submitted_def progress_def)
qed

theorem hook_stores_100_counterexample:
  "progress_store submitted ''t'' = Some (Finite 0)
   \<and> file_store submitted ''t'' = None
   \<and> progress_hook float_decimal ''t''
       [''status'' \<mapsto> ''downloading'', ''_percent_str'' \<mapsto> ''100.0%''] submitted
     = Inr \<lparr>progress_store = [''t'' \<mapsto> Finite 100], file_store = Map.empty\<rparr>
   \<and> progress_values float_decimal (ydl_fixed exit_raises) ''t'' video_request submitted
     = [Finite 0, Finite 99, Finite 99, Finite 100, Finite (- 1), Finite (- 1)]
   \<and> fst (start_download float_decimal (ydl_fixed exit_raises) ''t'' video_request submitted)
     = Some (LibraryError ''OSError'')"
  by (simp add: submitted_def progress_hook_def percent_str_100 float_decimal_100
        exit_raises_values [unfolded submitted_def] exit_raises_run [unfolded submitted_def])

section \<open>File names\<close>

lemma safe_filename_length: "length (safe_filename name) = length name"
  by (simp add: safe_filename_def)

lemma safe_filename_nth:
  "i < length name \<Longrightarrow>
   safe_filename name ! i = (if name ! i \<in> set unsafe_chars then CHR ''_'' else name ! i)"
  by (simp add: safe_filename_def)

lemma safe_filename_clean: "c \<in> set (safe_filename name) \<Longrightarrow> c \<notin> set unsafe_chars"
  by (auto simp: safe_filename_def unsafe_chars_def)

lemma safe_filename_unchanged:
  "set name \<inter> set unsafe_chars = {} \<Longrightarrow> safe_filename name = name"
  unfolding safe_filename_def by (induction name) auto

lemma fullwidth_title_run:
  "start_download float_decimal (ydl_fixed fullwidth_title) ''t'' video_request submitted
   = (None, \<lparr>progress_store = [''t'' \<mapsto> Finite 100],
             file_store = [''t'' \<mapsto> ''/tmp/downloads/t_a'' @ [CHR 0xEF, CHR 0xBC, CHR 0x9A] @ ''b.mp4'']\<rparr>)"
  by (simp add: start_download_def ydl_fixed_def fullwidth_title_def video_request_def submitted_def
        progress_hook_def finalize_def store_path_def store_done_def splitext_def basename_def
        dirpart_def)

text \<open>
  C8 (as amended). \<open>safe_filename\<close> keeps the length of a name, replaces every
  occurrence of the nine characters \<^verbatim>\<open>\ / : * ? " < > |\<close> by an underscore and changes
  nothing else. \<open>start_download\<close> does not apply it: the path a returning run records
  is the file name the library prepared, with its extension replaced by \<^verbatim>\<open>.mp4\<close> or
  \<^verbatim>\<open>.mp3\<close>. In the counterexample below the library has prepared the name of a video
  titled \<^verbatim>\<open>a:b\<close>, and the recorded path is not the one with the sanitized title.
\<close>

theorem stored_path_is_prepared_name:
  "length (safe_filename name) = length name
   \<and> (\<forall>i < length name.
         safe_filename name ! i = (if name ! i \<in> set unsafe_chars then CHR ''_'' else name ! i))
   \<and> set unsafe_chars = {CHR 0x5C, CHR ''/'', CHR '':'', CHR ''*'', CHR ''?'', CHR 0x22,
                          CHR ''<'', CHR ''>'', CHR ''|''}
   \<and> (\<forall>prepared_name.
         fst (start_download float ydl task_id req st) = None
         \<and> prepared (ydl (ydl_opts task_id req) (url req)) = Inr prepared_name \<longrightarrow>
         file_store (snd (start_download float ydl task_id req st)) task_id
           = Some (fst (splitext prepared_name)
                     @ (if type req = ''video'' then ''.mp4'' else ''.mp3'')))"
proof (intro conjI allI impI)
  show "length (safe_filename name) = length name" by (rule safe_filename_length)
next
  fix i assume "i < length name"
  then show "safe_filename name ! i = (if name ! i \<in> set unsafe_chars then CHR ''_'' else name ! i)"
    by (rule safe_filename_nth)
next
  show "set unsafe_chars = {CHR 0x5C, CHR ''/'', CHR '':'', CHR ''*'', CHR ''?'', CHR 0x22,
                          CHR ''<'', CHR ''>'', CHR ''|''}"
    by (simp add: unsafe_chars_def)
next
  fix prepared_name
  assume a: "fst (start_download float ydl task_id req st) = None
         \<and> prepared (ydl (ydl_opts task_id req) (url req)) = Inr prepared_name"
  then have s: "start_download float ydl task_id req st
                  = (None, snd (start_download float ydl task_id req st))"
    by (cases "start_download float ydl task_id req st") simp
  from start_download_returned [OF s] a
  show "file_store (snd (start_download float ydl task_id req st)) task_id
           = Some (fst (splitext prepared_name)
                     @ (if type req = ''video'' then ''.mp4'' else ''.mp3''))"
    by auto
qed

theorem stored_path_is_prepared_name_witness:
  "safe_filename ''a:b/c'' ! 1 = CHR ''_''
   \<and> safe_filename ''a:b/c'' ! 2 = CHR ''b''
   \<and> safe_filename ''a:b/c'' = ''a_b_c''
   \<and> fst (start_download float_decimal (ydl_fixed steady) ''t'' video_request submitted) = None
   \<and> prepared (ydl_fixed steady (ydl_opts ''t'' video_request) (url video_request))
       = Inr ''/tmp/downloads/t_clip.webm''
   \<and> file_store (snd (start_download float_decimal (ydl_fixed steady) ''t'' video_request submitted)) ''t''
       = Some ''/tmp/downloads/t_clip.mp4''"
proof -
  have n: "fst (start_download float_decimal (ydl_fixed steady) ''t'' video_request submitted) = None"
    by (simp add: steady_run)
  have p: "prepared (ydl_fixed steady (ydl_opts ''t'' video_request) (url video_request))
       = Inr ''/tmp/downloads/t_clip.webm''"
    by (simp add: ydl_fixed_def steady_def)
  have v: "type video_request = ''video''" by (simp add: video_request_def)
  have x: "fst (splitext ''/tmp/downloads/t_clip.webm'') = ''/tmp/downloads/t_clip''"
    by (simp add: splitext_def basename_def dirpart_def)
  note t = stored_path_is_prepared_name
             [where name = "''a:b/c''" and float = float_decimal and ydl = "ydl_fixed steady"
                and task_id = "''t''" and req = video_request and st = submitted]
  have i1: "(1::nat) < length ''a:b/c''" and i2: "(2::nat) < length ''a:b/c''" by simp_all
  have c1: "''a:b/c'' ! 1 \<in> set unsafe_chars" and c2: "''a:b/c'' ! 2 \<notin> set unsafe_chars"
    by (simp_all add: unsafe_chars_def)
  from t i1 c1 have 1: "safe_filename ''a:b/c'' ! 1 = CHR ''_''" by metis
  from t i2 c2 have 2: "safe_filename ''a:b/c'' ! 2 = ''a:b/c'' ! 2" by metis
  from t n p have 3: "file_store (snd (start_download float_decimal (ydl_fixed steady) ''t''
                         video_request submitted)) ''t''
       = Some (fst (splitext ''/tmp/downloads/t_clip.webm'')
                 @ (if type video_request = ''video'' then ''.mp4'' else ''.mp3''))"
    by blast
  have 4: "safe_filename ''a:b/c'' = ''a_b_c''"
    by (simp add: safe_filename_def unsafe_chars_def)
  from 1 2 3 4 n p v x show ?thesis by simp
qed

theorem stored_title_not_sanitized_counterexample:
  "prepared (ydl_fixed fullwidth_title (ydl_opts ''t'' video_request) (url video_request))
     = Inr (''/tmp/downloads/t_a'' @ [CHR 0xEF, CHR 0xBC, CHR 0x9A] @ ''b.webm'')
   \<and> start_download float_decimal (ydl_fixed fullwidth_title) ''t'' video_request submitted
     = (None, \<lparr>progress_store = [''t'' \<mapsto> Finite 100],
               file_store = [''t'' \<mapsto> ''/tmp/downloads/t_a'' @ [CHR 0xEF, CHR 0xBC, CHR 0x9A]
                                       @ ''b.mp4'']\<rparr>)
   \<and> DOWNLOAD_DIR @ ''/'' @ ''t'' @ ''_'' @ safe_filename ''a:b'' @ ''.mp4''
     = ''/tmp/downloads/t_a_b.mp4''
   \<and> ''/tmp/downloads/t_a'' @ [CHR 0xEF, CHR 0xBC, CHR 0x9A] @ ''b.mp4''
     \<noteq> DOWNLOAD_DIR @ ''/'' @ ''t'' @ ''_'' @ safe_filename ''a:b'' @ ''.mp4''"
proof (intro conjI)
  show "prepared (ydl_fixed fullwidth_title (ydl_opts ''t'' video_request) (url video_request))
     = Inr (''/tmp/downloads/t_a'' @ [CHR 0xEF, CHR 0xBC, CHR 0x9A] @ ''b.webm'')"
    by (simp add: ydl_fixed_def fullwidth_title_def)
  show "start_download float_decimal (ydl_fixed fullwidth_title) ''t'' video_request submitted
     = (None, \<lparr>progress_store = [''t'' \<mapsto> Finite 100],
               file_store = [''t'' \<mapsto> ''/tmp/downloads/t_a'' @ [CHR 0xEF, CHR 0xBC, CHR 0x9A]
                                       @ ''b.mp4'']\<rparr>)"
    by (rule fullwidth_title_run)
  show "DOWNLOAD_DIR @ ''/'' @ ''t'' @ ''_'' @ safe_filename ''a:b'' @ ''.mp4''
     = ''/tmp/downloads/t_a_b.mp4''"
    by (simp add: DOWNLOAD_DIR_def safe_filename_def unsafe_chars_def)
  show "''/tmp/downloads/t_a'' @ [CHR 0xEF, CHR 0xBC, CHR 0x9A] @ ''b.mp4''
     \<noteq> DOWNLOAD_DIR @ ''/'' @ ''t'' @ ''_'' @ safe_filename ''a:b'' @ ''.mp4''"
    by (simp add: DOWNLOAD_DIR_def safe_filename_def unsafe_chars_def)
qed

end
